theory Spec2Isabelle
  imports Main
begin

section \<open>Values, errors and observable outcomes\<close>

text \<open>
  The services of the OpenID-Connect client are written against RxJS observables. Every
  observable the two source files build or consume is single-shot: it emits one value and
  completes, it fails with an error, or it stays silent. A subscription is therefore
  modelled by its outcome, and the effects the code performs on its collaborators
  (logger, router, flag store, transport, timers) are recorded in order in a world that is
  passed through every function.
\<close>

text \<open>The \<open>error\<close> property of an \<open>HttpErrorResponse\<close>: a \<open>ProgressEvent\<close> with its
  \<open>type\<close>, or the body of an HTTP error status.\<close>

datatype http_cause = ProgressEvent string | ErrorBody string

text \<open>The values that travel on the error channel. \<open>Error_of e\<close> is \<open>new Error(e)\<close>,
  \<open>Error_msg m\<close> is \<open>new Error('m')\<close>, \<open>TypeError\<close> is what the JavaScript runtime throws
  when a property of \<open>undefined\<close> is read.\<close>

datatype js_error =
    TimeoutError
  | HttpErrorResponse http_cause
  | TypeError string
  | OtherError string
  | Error_msg string
  | Error_of js_error

datatype 'a outcome = Emits 'a | Throws js_error | Silent

text \<open>A nullable string is a \<open>string option\<close>; \<open>!v\<close> holds for \<open>null\<close>, \<open>undefined\<close> and
  the empty string.\<close>

definition js_falsy :: "string option \<Rightarrow> bool" where
  "js_falsy v = (case v of None \<Rightarrow> True | Some s \<Rightarrow> s = [])"

datatype param_value = PString string | PNumber int | PBoolean bool

type_synonym custom_params = "string \<rightharpoonup> param_value"

text \<open>A parsed token-endpoint response: a JSON object with nullable string members.\<close>

type_synonym auth_result = "string \<rightharpoonup> string option"

section \<open>Configuration and callback context\<close>

text \<open>Modelled from the spec: the \<open>OpenIdConfiguration\<close> type (section 3 of the
  specification, Identity-Provider Configuration), with the fields the two services read.\<close>

record OpenIdConfiguration =
  configId :: string
  authority :: string
  authWellknownEndpointUrl :: "string option"
  customParamsRefreshTokenRequest :: "custom_params option"
  customParamsCodeRequest :: "custom_params option"
  silentRenewTimeoutInSeconds :: nat
  refreshTokenRetryInSeconds :: nat
  triggerAuthorizationResultEvent :: bool
  postLoginRoute :: string
  unauthorizedRoute :: string

text \<open>Modelled from the spec: the \<open>CallbackContext\<close> type (section 3, Callback Context);
  its fields are the ones \<open>codeFlowCallback\<close> initialises.\<close>

record CallbackContext =
  code :: "string option"
  refreshToken :: "string option"
  state :: "string option"
  sessionState :: "string option"
  authResult :: "auth_result option"
  isRenewProcess :: bool
  jwtKeys :: "string option"
  validationResult :: "string option"
  existingIdToken :: "string option"

section \<open>The world: flag store and effect log\<close>

datatype event =
    LogDebug string
  | LogWarning string
  | LogError string
  | NavigateByUrl string
  | StopPeriodicTokenCheck
  | SetSilentRenewRunning string
  | ResetSilentRenewRunning string
  | GetAuthWellKnownEndPoints string string
  | RefreshSessionWithRefreshTokens string "custom_params option"
  | RefreshSessionWithIframe string "custom_params option"
  | TimeoutElapsed nat
  | Timer nat
  | Post string string string

text \<open>\<open>silentRenewRunning\<close> is the per-configuration in-progress flag, \<open>events\<close> the calls
  made on the collaborators, oldest first. Logger records keep level and message.\<close>

record world =
  silentRenewRunning :: "string \<Rightarrow> bool"
  events :: "event list"

definition perform :: "event \<Rightarrow> world \<Rightarrow> world" where
  "perform e w = w\<lparr>events := events w @ [e]\<rparr>"

text \<open>Modelled from the spec: \<open>FlowsDataService\<close> (section 3, Silent-renewal-in-progress
  flag): a boolean per configuration id that is read, set and cleared.\<close>

definition isSilentRenewRunning :: "world \<Rightarrow> OpenIdConfiguration \<Rightarrow> bool" where
  "isSilentRenewRunning w config = silentRenewRunning w (configId config)"

definition setSilentRenewRunning :: "string \<Rightarrow> world \<Rightarrow> world" where
  "setSilentRenewRunning cid w =
     perform (SetSilentRenewRunning cid) (w\<lparr>silentRenewRunning := (silentRenewRunning w)(cid := True)\<rparr>)"

definition resetSilentRenewRunning :: "string \<Rightarrow> world \<Rightarrow> world" where
  "resetSilentRenewRunning cid w =
     perform (ResetSilentRenewRunning cid) (w\<lparr>silentRenewRunning := (silentRenewRunning w)(cid := False)\<rparr>)"

text \<open>The events a call added to the log.\<close>

definition new_events :: "world \<Rightarrow> world \<Rightarrow> event list" where
  "new_events w w' = drop (length (events w)) (events w')"

section \<open>Code-flow callback handler\<close>

record AuthWellKnownEndpoints =
  tokenEndpoint :: "string option"

text \<open>The collaborators of \<open>CodeFlowCallbackHandlerService\<close>. \<open>post svc n\<close> is the outcome of
  the \<open>n\<close>-th subscription to \<open>dataService.post\<close> (each subscription issues the request
  anew).\<close>

record code_flow_services =
  getUrlParameter :: "string \<Rightarrow> string \<Rightarrow> string option"
  getAuthStateControl :: "string \<Rightarrow> string option"
  readAuthWellKnownEndPoints :: "string \<Rightarrow> AuthWellKnownEndpoints option"
  createBodyForCodeFlowCodeRequest ::
    "string option \<Rightarrow> OpenIdConfiguration \<Rightarrow> custom_params option \<Rightarrow> string"
  post :: "nat \<Rightarrow> auth_result outcome"

text \<open>Modelled from the spec: \<open>TokenValidationService.validateStateFromHashCallback\<close>
  (section 4.1, step 1): the stored anti-forgery value is compared with the callback's
  state by exact equality.\<close>

definition validateStateFromHashCallback :: "string option \<Rightarrow> string option \<Rightarrow> string \<Rightarrow> bool" where
  "validateStateFromHashCallback st localState cid = (st = localState)"

definition codeFlowCallback ::
  "code_flow_services \<Rightarrow> string \<Rightarrow> OpenIdConfiguration \<Rightarrow> world \<Rightarrow> CallbackContext outcome \<times> world" where
  "codeFlowCallback svc urlToCheck config w =
     (let code' = getUrlParameter svc urlToCheck ''code'';
          state' = getUrlParameter svc urlToCheck ''state'';
          sessionState' = getUrlParameter svc urlToCheck ''session_state''
      in if js_falsy state' then
           (Throws (Error_msg ''no state in url''), perform (LogDebug ''no state in url'') w)
         else if js_falsy code' then
           (Throws (Error_msg ''no code in url''), perform (LogDebug ''no code in url'') w)
         else
           (Emits \<lparr>code = code', refreshToken = None, state = state', sessionState = sessionState',
                   authResult = None, isRenewProcess = False, jwtKeys = None,
                   validationResult = None, existingIdToken = None\<rparr>,
            perform (LogDebug ''running validation for callback'') w))"

text \<open>The test of \<open>handleRefreshRetry\<close>: an \<open>HttpErrorResponse\<close> whose \<open>error\<close> is a
  \<open>ProgressEvent\<close> of type \<open>error\<close>.\<close>

fun noInternetConnection :: "js_error \<Rightarrow> bool" where
  "noInternetConnection (HttpErrorResponse (ProgressEvent ty)) = (ty = ''error'')"
| "noInternetConnection _ = False"

text \<open>One error of the POST seen by the notifier of \<open>retryWhen\<close>: \<open>Inr ms\<close> is
  \<open>timer(ms)\<close>, after which the source is subscribed again; \<open>Inl e\<close> is \<open>throwError\<close>.\<close>

definition handleRefreshRetry ::
  "js_error \<Rightarrow> OpenIdConfiguration \<Rightarrow> world \<Rightarrow> (js_error + nat) \<times> world" where
  "handleRefreshRetry error config w =
     (if noInternetConnection error then
        (Inr (refreshTokenRetryInSeconds config * 1000),
         perform (LogWarning (''OidcService code request '' @ authority config @ '' - no internet connection'')) w)
      else (Inl (Error_of error), w))"

text \<open>The \<open>catchError\<close> stage of \<open>codeFlowCodeRequest\<close>.\<close>

definition codeRequestCatchError ::
  "js_error \<Rightarrow> OpenIdConfiguration \<Rightarrow> world \<Rightarrow> CallbackContext outcome \<times> world" where
  "codeRequestCatchError error config w =
     (let errorMessage = ''OidcService code request '' @ authority config
      in (Throws (Error_msg errorMessage), perform (LogError errorMessage) w))"

text \<open>The pipeline \<open>post(...).pipe(switchMap, retryWhen, catchError)\<close>, from its \<open>n\<close>-th
  subscription on. The retry has no bound, so the function is partial: \<open>None\<close> is a
  pipeline that retries for ever.\<close>

partial_function (option) postWithRetry ::
  "code_flow_services \<Rightarrow> CallbackContext \<Rightarrow> OpenIdConfiguration \<Rightarrow> string \<Rightarrow> string \<Rightarrow> nat \<Rightarrow> world
     \<Rightarrow> (CallbackContext outcome \<times> world) option" where
  "postWithRetry svc callbackContext config ep body n w =
     (case post svc n of
        Emits response \<Rightarrow>
          Some (Emits (callbackContext\<lparr>authResult :=
                    Some (response(''state'' \<mapsto> state callbackContext,
                                   ''session_state'' \<mapsto> sessionState callbackContext))\<rparr>),
                perform (Post ep body (configId config)) w)
      | Silent \<Rightarrow> Some (Silent, perform (Post ep body (configId config)) w)
      | Throws error \<Rightarrow>
          (case handleRefreshRetry error config (perform (Post ep body (configId config)) w) of
             (Inr ms, w2) \<Rightarrow> postWithRetry svc callbackContext config ep body (Suc n) (perform (Timer ms) w2)
           | (Inl e, w2) \<Rightarrow> Some (codeRequestCatchError e config w2)))"

definition codeFlowCodeRequest ::
  "code_flow_services \<Rightarrow> CallbackContext \<Rightarrow> OpenIdConfiguration \<Rightarrow> world
     \<Rightarrow> (CallbackContext outcome \<times> world) option" where
  "codeFlowCodeRequest svc callbackContext config w =
     (let authStateControl = getAuthStateControl svc (configId config);
          isStateCorrect =
            validateStateFromHashCallback (state callbackContext) authStateControl (configId config)
      in if \<not> isStateCorrect then
           Some (Throws (Error_msg ''codeFlowCodeRequest incorrect state''), w)
         else
           (case (case readAuthWellKnownEndPoints svc (configId config) of
                    None \<Rightarrow> None | Some endpoints \<Rightarrow> tokenEndpoint endpoints) of
              None \<Rightarrow> Some (Throws (Error_msg ''Token Endpoint not defined''), w)
            | Some ep \<Rightarrow>
                if ep = [] then Some (Throws (Error_msg ''Token Endpoint not defined''), w)
                else postWithRetry svc callbackContext config ep
                       (createBodyForCodeFlowCodeRequest svc (code callbackContext) config
                          (customParamsCodeRequest config)) 0 w))"

section \<open>Implicit-flow callback\<close>

text \<open>\<open>processImplicitFlowCallback\<close> is the delegate \<open>flowsService.processImplicitFlowCallback\<close>;
  it may change the world in any way before its outcome is known.\<close>

definition authenticatedImplicitFlowCallback ::
  "(OpenIdConfiguration \<Rightarrow> OpenIdConfiguration list \<Rightarrow> string option \<Rightarrow> world
      \<Rightarrow> CallbackContext outcome \<times> world)
    \<Rightarrow> OpenIdConfiguration \<Rightarrow> OpenIdConfiguration list \<Rightarrow> string option \<Rightarrow> world
    \<Rightarrow> CallbackContext outcome \<times> world" where
  "authenticatedImplicitFlowCallback processImplicitFlowCallback config allConfigs hash w =
     (let isRenewProcess' = isSilentRenewRunning w config
      in case processImplicitFlowCallback config allConfigs hash w of
           (Emits callbackContext, w1) \<Rightarrow>
             (Emits callbackContext,
              if \<not> triggerAuthorizationResultEvent config \<and> \<not> isRenewProcess callbackContext
              then perform (NavigateByUrl (postLoginRoute config)) w1 else w1)
         | (Throws error, w1) \<Rightarrow>
             (let w2 = resetSilentRenewRunning (configId config) w1;
                  w3 = perform StopPeriodicTokenCheck w2;
                  w4 = (if \<not> triggerAuthorizationResultEvent config \<and> \<not> isRenewProcess'
                        then perform (NavigateByUrl (unauthorizedRoute config)) w3 else w3)
              in (Throws (Error_of error), w4))
         | (Silent, w1) \<Rightarrow> (Silent, w1))"

section \<open>Refresh-session service\<close>

definition MAX_RETRY_ATTEMPTS :: nat where
  "MAX_RETRY_ATTEMPTS = 3"

text \<open>What \<open>startRefreshSession\<close> emits: \<open>boolean | CallbackContext | null\<close>.\<close>

datatype refresh_value = RNull | RBoolean bool | RContext CallbackContext

record LoginResponse =
  idToken :: "string option"
  accessToken :: "string option"
  userData :: "string option"
  isAuthenticated :: bool
  loginConfigId :: string

text \<open>What the collaborators do during one subscription to the renewal pipeline: the
  outcome of the well-known metadata fetch, of the refresh-token exchange, of the iframe
  renewal, and the value of \<open>refreshSessionWithIFrameCompleted$\<close> if the signal arrives.
  While a timeout is armed, \<open>Silent\<close> and a signal of \<open>None\<close> mean that nothing arrives
  before it elapses. The collaborators are outside the files modelled here; the world
  records the calls made on them and the flag writes of these files only.\<close>

record renewal_attempt =
  wellKnownOutcome :: "unit outcome"
  refreshTokensOutcome :: "refresh_value outcome"
  iframeOutcome :: "refresh_value outcome"
  iframeCompleted :: "CallbackContext option option"

text \<open>The collaborators of \<open>RefreshSessionService\<close>. \<open>attempt svc n\<close> describes the \<open>n\<close>-th
  subscription; the four readers report the token store when the \<open>map\<close> stage runs.\<close>

record refresh_services =
  isCurrentFlowCodeFlowWithRefreshTokens :: "OpenIdConfiguration \<Rightarrow> bool"
  attempt :: "nat \<Rightarrow> renewal_attempt"
  areAuthStorageTokensValid :: "OpenIdConfiguration \<Rightarrow> bool"
  getIdToken :: "string \<Rightarrow> string option"
  getAccessToken :: "string \<Rightarrow> string option"
  getUserDataFromStore :: "OpenIdConfiguration \<Rightarrow> string option"

text \<open>The object spread \<open>{ ...a, ...b }\<close>: members of \<open>b\<close> replace members of \<open>a\<close>;
  spreading \<open>undefined\<close> adds nothing.\<close>

definition spreadParams :: "custom_params option \<Rightarrow> custom_params option \<Rightarrow> custom_params" where
  "spreadParams a b =
     (case a of None \<Rightarrow> Map.empty | Some m \<Rightarrow> m) ++ (case b of None \<Rightarrow> Map.empty | Some m \<Rightarrow> m)"

text \<open>The optional chain \<open>callbackContext?.authResult?.member\<close>.\<close>

definition authResultMember :: "CallbackContext option \<Rightarrow> string \<Rightarrow> string option" where
  "authResultMember callbackContext member =
     (case callbackContext of
        None \<Rightarrow> None
      | Some c \<Rightarrow> (case authResult c of
                    None \<Rightarrow> None
                  | Some r \<Rightarrow> (case r member of None \<Rightarrow> None | Some v \<Rightarrow> v)))"

text \<open>The decimal numeral a template literal prints for a non-negative integer.\<close>

definition digitChar :: "nat \<Rightarrow> char" where
  "digitChar d = ''0123456789'' ! d"

fun numberToString :: "nat \<Rightarrow> string" where
  "numberToString n =
     (if 10 \<le> n then numberToString (n div 10) @ [digitChar (n mod 10)] else [digitChar n])"

declare numberToString.simps [simp del]

text \<open>\<open>startRefreshSession\<close> runs its body when it is called and returns an observable:
  \<open>of(null)\<close>, or the pipe of the well-known metadata through \<open>switchMap\<close>. The body runs
  once per call; what is inside \<open>switchMap\<close> runs at every subscription to the returned
  observable.\<close>

datatype refresh_observable = OfNull | WellKnownPipe

text \<open>The body of \<open>startRefreshSession\<close>: the flag is read and logged, and unless the call
  is a no-op \<open>getAuthWellKnownEndPoints\<close> is called.\<close>

definition startRefreshSession_call ::
  "OpenIdConfiguration \<Rightarrow> world \<Rightarrow> refresh_observable \<times> world" where
  "startRefreshSession_call config w =
     (let isRunning = isSilentRenewRunning w config;
          w1 = perform (LogDebug (''Checking: silentRenewRunning: '' @ (if isRunning then ''true'' else ''false''))) w;
          shouldBeExecuted = \<not> isRunning
      in if \<not> shouldBeExecuted then (OfNull, w1)
         else if js_falsy (authWellknownEndpointUrl config) then
           (OfNull, perform (LogError ''no authWellKnownEndpoint given!'') w1)
         else
           (let url = (case authWellknownEndpointUrl config of None \<Rightarrow> [] | Some u \<Rightarrow> u)
            in (WellKnownPipe, perform (GetAuthWellKnownEndPoints url (configId config)) w1)))"

text \<open>One subscription to the observable \<open>startRefreshSession\<close> returned, with the
  collaborators behaving as \<open>env\<close> says: \<open>of(null)\<close> emits null; the pipe waits for the
  metadata and then, inside \<open>switchMap\<close>, sets the flag and dispatches.\<close>

definition startRefreshSession_subscribe ::
  "refresh_services \<Rightarrow> renewal_attempt \<Rightarrow> OpenIdConfiguration \<Rightarrow> custom_params option
     \<Rightarrow> refresh_observable \<Rightarrow> world \<Rightarrow> refresh_value outcome \<times> world" where
  "startRefreshSession_subscribe svc env config extraCustomParams source w =
     (case source of
        OfNull \<Rightarrow> (Emits RNull, w)
      | WellKnownPipe \<Rightarrow>
          (case wellKnownOutcome env of
             Emits _ \<Rightarrow>
               (let w3 = setSilentRenewRunning (configId config) w
                in if isCurrentFlowCodeFlowWithRefreshTokens svc config then
                     (refreshTokensOutcome env,
                      perform (RefreshSessionWithRefreshTokens (configId config) extraCustomParams) w3)
                   else
                     (iframeOutcome env,
                      perform (RefreshSessionWithIframe (configId config) extraCustomParams) w3))
           | Throws e \<Rightarrow> (Throws e, w)
           | Silent \<Rightarrow> (Silent, w)))"

text \<open>\<open>startRefreshSession\<close> called and its observable subscribed once.\<close>

definition startRefreshSession ::
  "refresh_services \<Rightarrow> renewal_attempt \<Rightarrow> OpenIdConfiguration \<Rightarrow> custom_params option \<Rightarrow> world
     \<Rightarrow> refresh_value outcome \<times> world" where
  "startRefreshSession svc env config extraCustomParams w =
     (case startRefreshSession_call config w of
        (source, w1) \<Rightarrow> startRefreshSession_subscribe svc env config extraCustomParams source w1)"

text \<open>The notifier of \<open>retryWhen\<close>, applied to the error with index \<open>index\<close> of the error
  stream. The parameter \<open>config\<close> may be \<open>undefined\<close> (\<open>None\<close>): the function starts with
  \<open>const { configId } = config\<close>, which throws a \<open>TypeError\<close> then. \<open>Inr ms\<close> is
  \<open>timer(ms)\<close>, after which the source is subscribed again; \<open>Inl e\<close> ends the pipeline
  with \<open>e\<close>.\<close>

definition timeoutRetryStrategy ::
  "OpenIdConfiguration option \<Rightarrow> js_error \<Rightarrow> nat \<Rightarrow> world \<Rightarrow> (js_error + nat) \<times> world" where
  "timeoutRetryStrategy config error index w =
     (case config of
        None \<Rightarrow> (Inl (TypeError ''Cannot destructure property configId of undefined''), w)
      | Some c \<Rightarrow>
          (let scalingDuration = 1000;
               currentAttempt = index + 1
           in if error \<noteq> TimeoutError \<or> currentAttempt > MAX_RETRY_ATTEMPTS then
                (Inl (Error_of error), w)
              else
                (Inr (currentAttempt * scalingDuration),
                 resetSilentRenewRunning (configId c)
                   (perform (LogDebug (''forceRefreshSession timeout. Attempt #'' @ numberToString currentAttempt)) w))))"

text \<open>One subscription to \<open>forkJoin([source, completed$.pipe(take(1))])\<close> under
  \<open>timeout(timeOutTime)\<close>, where \<open>source\<close> is the observable \<open>startRefreshSession\<close>
  returned: the join emits when both sources have emitted, fails when the first fails, and
  otherwise the timeout elapses.\<close>

definition forkJoinWithTimeout ::
  "refresh_services \<Rightarrow> renewal_attempt \<Rightarrow> OpenIdConfiguration \<Rightarrow> custom_params option
     \<Rightarrow> refresh_observable \<Rightarrow> nat \<Rightarrow> world
     \<Rightarrow> (refresh_value \<times> CallbackContext option) outcome \<times> world" where
  "forkJoinWithTimeout svc env config extraCustomParams source timeOutTime w =
     (case startRefreshSession_subscribe svc env config extraCustomParams source w of
        (Throws e, w1) \<Rightarrow> (Throws e, w1)
      | (Emits v, w1) \<Rightarrow>
          (case iframeCompleted env of
             Some callbackContext \<Rightarrow> (Emits (v, callbackContext), w1)
           | None \<Rightarrow> (Throws TimeoutError, perform (TimeoutElapsed timeOutTime) w1))
      | (Silent, w1) \<Rightarrow> (Throws TimeoutError, perform (TimeoutElapsed timeOutTime) w1))"

text \<open>\<open>retryWhen(notifier)\<close> over that join, from the subscription with index \<open>index\<close> on:
  a retry subscribes to the same \<open>source\<close> again and does not call \<open>startRefreshSession\<close>
  again. \<open>notifierConfig\<close> is the second argument the notifier runs with.\<close>

function renewWithRetry ::
  "refresh_services \<Rightarrow> OpenIdConfiguration \<Rightarrow> custom_params option \<Rightarrow> refresh_observable \<Rightarrow> nat
     \<Rightarrow> OpenIdConfiguration option \<Rightarrow> nat \<Rightarrow> world
     \<Rightarrow> (refresh_value \<times> CallbackContext option) outcome \<times> world" where
  "renewWithRetry svc config extraCustomParams source timeOutTime notifierConfig index w =
     (case forkJoinWithTimeout svc (attempt svc index) config extraCustomParams source timeOutTime w of
        (Emits v, w1) \<Rightarrow> (Emits v, w1)
      | (Silent, w1) \<Rightarrow> (Silent, w1)
      | (Throws error, w1) \<Rightarrow>
          (case timeoutRetryStrategy notifierConfig error index w1 of
             (Inl e, w2) \<Rightarrow> (Throws e, w2)
           | (Inr ms, w2) \<Rightarrow>
               renewWithRetry svc config extraCustomParams source timeOutTime notifierConfig (Suc index)
                 (perform (Timer ms) w2)))"
  by pat_completeness auto

lemma timeoutRetryStrategy_retry_bound:
  "timeoutRetryStrategy nc error index w = (Inr ms, w') \<Longrightarrow> index < MAX_RETRY_ATTEMPTS"
  by (simp add: timeoutRetryStrategy_def Let_def split: option.splits if_splits)

termination renewWithRetry
  by (relation "measure (\<lambda>(svc, config, extra, source, t, nc, index, w). MAX_RETRY_ATTEMPTS - index)")
     (auto dest!: timeoutRetryStrategy_retry_bound [OF sym])

declare renewWithRetry.simps [simp del]

text \<open>\<open>forceRefreshSession\<close>. On the iframe path \<open>startRefreshSession\<close> is called once, when
  the array for \<open>forkJoin\<close> is built. The notifier is
  \<open>this.timeoutRetryStrategy.bind(this)\<close>: \<open>bind\<close> fixes the receiver only and \<open>retryWhen\<close>
  calls its notifier with the error stream alone, so the strategy runs with its second
  parameter \<open>undefined\<close>.\<close>

definition forceRefreshSession ::
  "refresh_services \<Rightarrow> OpenIdConfiguration \<Rightarrow> custom_params option \<Rightarrow> world
     \<Rightarrow> LoginResponse option outcome \<times> world" where
  "forceRefreshSession svc config extraCustomParams w =
     (let mergedParams = spreadParams (customParamsRefreshTokenRequest config) extraCustomParams
      in if isCurrentFlowCodeFlowWithRefreshTokens svc config then
           (case startRefreshSession svc (attempt svc 0) config (Some mergedParams) w of
              (Emits _, w1) \<Rightarrow>
                (Emits (if areAuthStorageTokensValid svc config then
                          Some \<lparr>idToken = getIdToken svc (configId config),
                                accessToken = getAccessToken svc (configId config),
                                userData = getUserDataFromStore svc config,
                                isAuthenticated = True,
                                loginConfigId = configId config\<rparr>
                        else None), w1)
            | (Throws e, w1) \<Rightarrow> (Throws e, w1)
            | (Silent, w1) \<Rightarrow> (Silent, w1))
         else
           (let timeOutTime = silentRenewTimeoutInSeconds config * 1000
            in case startRefreshSession_call config w of
                 (source, w0) \<Rightarrow>
                   (case renewWithRetry svc config extraCustomParams source timeOutTime None 0 w0 of
                      (Emits (_, callbackContext), w1) \<Rightarrow>
                        (Emits (if areAuthStorageTokensValid svc config then
                                  Some \<lparr>idToken = authResultMember callbackContext ''id_token'',
                                        accessToken = authResultMember callbackContext ''access_token'',
                                        userData = getUserDataFromStore svc config,
                                        isAuthenticated = True,
                                        loginConfigId = configId config\<rparr>
                                else None), w1)
                    | (Throws e, w1) \<Rightarrow> (Throws e, w1)
                    | (Silent, w1) \<Rightarrow> (Silent, w1))))"

section \<open>Event traces of the operations\<close>

text \<open>The events \<open>startRefreshSession\<close>, called and subscribed once, adds to the log.\<close>

definition startEvents ::
  "refresh_services \<Rightarrow> renewal_attempt \<Rightarrow> OpenIdConfiguration \<Rightarrow> custom_params option \<Rightarrow> world
     \<Rightarrow> event list" where
  "startEvents svc env config extra w =
     (if silentRenewRunning w (configId config) then [LogDebug ''Checking: silentRenewRunning: true'']
      else if js_falsy (authWellknownEndpointUrl config) then
        [LogDebug ''Checking: silentRenewRunning: false'', LogError ''no authWellKnownEndpoint given!'']
      else
        [LogDebug ''Checking: silentRenewRunning: false'',
         GetAuthWellKnownEndPoints (case authWellknownEndpointUrl config of None \<Rightarrow> [] | Some u \<Rightarrow> u)
           (configId config)]
        @ (case wellKnownOutcome env of
             Emits _ \<Rightarrow> [SetSilentRenewRunning (configId config),
                         if isCurrentFlowCodeFlowWithRefreshTokens svc config
                         then RefreshSessionWithRefreshTokens (configId config) extra
                         else RefreshSessionWithIframe (configId config) extra]
           | _ \<Rightarrow> []))"

text \<open>The events of one failed and retried token request: the POST, the warning, the
  delay.\<close>

definition retryRound :: "string \<Rightarrow> string \<Rightarrow> OpenIdConfiguration \<Rightarrow> event list" where
  "retryRound ep body config =
     [Post ep body (configId config),
      LogWarning (''OidcService code request '' @ authority config @ '' - no internet connection''),
      Timer (refreshTokenRetryInSeconds config * 1000)]"

text \<open>The transport error of a request that found no network.\<close>

definition noInternet :: js_error where
  "noInternet = HttpErrorResponse (ProgressEvent ''error'')"

fun surfacedError :: "'a outcome \<Rightarrow> bool" where
  "surfacedError (Throws e) = True"
| "surfacedError _ = False"

fun isTimer :: "event \<Rightarrow> bool" where
  "isTimer (Timer ms) = True"
| "isTimer _ = False"

fun isDispatch :: "event \<Rightarrow> bool" where
  "isDispatch (RefreshSessionWithIframe c p) = True"
| "isDispatch (RefreshSessionWithRefreshTokens c p) = True"
| "isDispatch _ = False"

fun isWellKnownCall :: "event \<Rightarrow> bool" where
  "isWellKnownCall (GetAuthWellKnownEndPoints u c) = True"
| "isWellKnownCall _ = False"

section \<open>Concrete scenarios\<close>

definition iframeConfig :: OpenIdConfiguration where
  "iframeConfig =
     \<lparr>configId = ''a'', authority = ''https://idp'',
      authWellknownEndpointUrl = Some ''https://idp/.well-known/openid-configuration'',
      customParamsRefreshTokenRequest = Some [''scope'' \<mapsto> PString ''offline_access''],
      customParamsCodeRequest = None,
      silentRenewTimeoutInSeconds = 20, refreshTokenRetryInSeconds = 3,
      triggerAuthorizationResultEvent = False,
      postLoginRoute = ''/home'', unauthorizedRoute = ''/unauthorized''\<rparr>"

definition extraDemo :: custom_params where
  "extraDemo = [''scope'' \<mapsto> PString ''openid'', ''prompt'' \<mapsto> PString ''none'']"

definition idleWorld :: world where
  "idleWorld = \<lparr>silentRenewRunning = (\<lambda>_. False), events = []\<rparr>"

definition busyWorld :: world where
  "busyWorld = \<lparr>silentRenewRunning = (\<lambda>cid. cid = ''a''), events = []\<rparr>"

text \<open>A subscription in which the iframe renewal starts but the completed signal never
  arrives.\<close>

definition timeoutAttempt :: renewal_attempt where
  "timeoutAttempt =
     \<lparr>wellKnownOutcome = Emits (), refreshTokensOutcome = Silent,
      iframeOutcome = Emits (RBoolean True), iframeCompleted = None\<rparr>"

text \<open>A subscription in which the iframe renewal starts and the completed signal arrives
  with the renewed context, and one on the refresh-token path in which the exchange
  fails.\<close>

definition renewedContext :: CallbackContext where
  "renewedContext =
     \<lparr>code = None, refreshToken = None, state = Some ''xyz'', sessionState = None,
      authResult = Some [''access_token'' \<mapsto> Some ''at-1'', ''id_token'' \<mapsto> Some ''it-1''],
      isRenewProcess = True, jwtKeys = None,
      validationResult = None, existingIdToken = None\<rparr>"

definition answeredAttempt :: renewal_attempt where
  "answeredAttempt =
     \<lparr>wellKnownOutcome = Emits (), refreshTokensOutcome = Silent,
      iframeOutcome = Emits (RBoolean True), iframeCompleted = Some (Some renewedContext)\<rparr>"

definition failedExchangeAttempt :: renewal_attempt where
  "failedExchangeAttempt =
     \<lparr>wellKnownOutcome = Emits (), refreshTokensOutcome = Throws (OtherError ''invalid_grant''),
      iframeOutcome = Silent, iframeCompleted = None\<rparr>"

definition refreshedAttempt :: renewal_attempt where
  "refreshedAttempt =
     \<lparr>wellKnownOutcome = Emits (), refreshTokensOutcome = Emits (RBoolean True),
      iframeOutcome = Silent, iframeCompleted = None\<rparr>"

definition iframeServices :: "(nat \<Rightarrow> renewal_attempt) \<Rightarrow> refresh_services" where
  "iframeServices attempts =
     \<lparr>isCurrentFlowCodeFlowWithRefreshTokens = (\<lambda>_. False), attempt = attempts,
      areAuthStorageTokensValid = (\<lambda>_. True),
      getIdToken = (\<lambda>_. Some ''stored-id-token''),
      getAccessToken = (\<lambda>_. Some ''stored-access-token''),
      getUserDataFromStore = (\<lambda>_. Some ''alice'')\<rparr>"

definition refreshTokenServices :: refresh_services where
  "refreshTokenServices =
     \<lparr>isCurrentFlowCodeFlowWithRefreshTokens = (\<lambda>_. True), attempt = (\<lambda>_. refreshedAttempt),
      areAuthStorageTokensValid = (\<lambda>_. True),
      getIdToken = (\<lambda>_. Some ''stored-id-token''),
      getAccessToken = (\<lambda>_. Some ''stored-access-token''),
      getUserDataFromStore = (\<lambda>_. Some ''alice'')\<rparr>"

definition tokenResponse :: auth_result where
  "tokenResponse = [''access_token'' \<mapsto> Some ''at-1'', ''id_token'' \<mapsto> Some ''it-1'']"

text \<open>Code-flow collaborators whose transport finds no network twice and then answers, and
  collaborators whose transport answers with an HTTP error status.\<close>

definition recoveringServices :: code_flow_services where
  "recoveringServices =
     \<lparr>getUrlParameter = (\<lambda>url name.
         if url = ''https://app/callback?code=abc&state=xyz'' then
           (if name = ''code'' then Some ''abc'' else if name = ''state'' then Some ''xyz'' else None)
         else if url = ''https://app/callback?code=abc'' then
           (if name = ''code'' then Some ''abc'' else None)
         else None),
      getAuthStateControl = (\<lambda>_. Some ''xyz''),
      readAuthWellKnownEndPoints = (\<lambda>cid.
         if cid = ''a'' then Some \<lparr>tokenEndpoint = Some ''https://idp/token''\<rparr> else None),
      createBodyForCodeFlowCodeRequest = (\<lambda>c config params. ''grant_type=authorization_code''),
      post = (\<lambda>n. if n < 2 then Throws noInternet else Emits tokenResponse)\<rparr>"

definition rejectingServices :: code_flow_services where
  "rejectingServices = recoveringServices\<lparr>post := \<lambda>n. Throws (HttpErrorResponse (ErrorBody ''invalid_grant''))\<rparr>"

definition callbackContextDemo :: CallbackContext where
  "callbackContextDemo =
     \<lparr>code = Some ''abc'', refreshToken = None, state = Some ''xyz'', sessionState = None,
      authResult = None, isRenewProcess = False, jwtKeys = None,
      validationResult = None, existingIdToken = None\<rparr>"

text \<open>An implicit-flow delegate that marks a renewal as running and then fails.\<close>

definition failingProcessor ::
  "OpenIdConfiguration \<Rightarrow> OpenIdConfiguration list \<Rightarrow> string option \<Rightarrow> world
     \<Rightarrow> CallbackContext outcome \<times> world" where
  "failingProcessor config allConfigs hash w =
     (Throws (OtherError ''invalid id_token''), setSilentRenewRunning (configId config) w)"

section \<open>Basic facts about the world\<close>

lemma events_perform [simp]: "events (perform e w) = events w @ [e]"
  by (simp add: perform_def)

lemma silentRenewRunning_perform [simp]: "silentRenewRunning (perform e w) = silentRenewRunning w"
  by (simp add: perform_def)

lemma events_setSilentRenewRunning [simp]:
  "events (setSilentRenewRunning cid w) = events w @ [SetSilentRenewRunning cid]"
  by (simp add: setSilentRenewRunning_def)

lemma flag_setSilentRenewRunning [simp]:
  "silentRenewRunning (setSilentRenewRunning cid w) = (silentRenewRunning w)(cid := True)"
  by (simp add: setSilentRenewRunning_def)

lemma events_resetSilentRenewRunning [simp]:
  "events (resetSilentRenewRunning cid w) = events w @ [ResetSilentRenewRunning cid]"
  by (simp add: resetSilentRenewRunning_def)

lemma flag_resetSilentRenewRunning [simp]:
  "silentRenewRunning (resetSilentRenewRunning cid w) = (silentRenewRunning w)(cid := False)"
  by (simp add: resetSilentRenewRunning_def)

lemma new_events_append [simp]: "new_events w (w'\<lparr>events := events w @ es\<rparr>) = es"
  by (simp add: new_events_def)

section \<open>The token request and its retry\<close>

lemma postWithRetry_step:
  assumes "post svc m = Throws noInternet"
  shows "postWithRetry svc ctx config ep body m w =
         postWithRetry svc ctx config ep body (Suc m)
           (w\<lparr>events := events w @ retryRound ep body config\<rparr>)"
  using assms
  by (subst postWithRetry.simps)
     (simp add: noInternet_def handleRefreshRetry_def retryRound_def perform_def)

lemma postWithRetry_skip:
  assumes "\<forall>i<k. post svc (m + i) = Throws noInternet"
  shows "postWithRetry svc ctx config ep body m w =
         postWithRetry svc ctx config ep body (m + k)
           (w\<lparr>events := events w @ concat (replicate k (retryRound ep body config))\<rparr>)"
  using assms
proof (induction k arbitrary: m w)
  case 0
  then show ?case by simp
next
  case (Suc k)
  have first: "post svc m = Throws noInternet"
    using Suc.prems by (metis add.right_neutral zero_less_Suc)
  have rest: "\<forall>i<k. post svc (Suc m + i) = Throws noInternet"
    using Suc.prems by (metis add_Suc_shift Suc_less_eq)
  show ?case
    by (simp add: postWithRetry_step [OF first] Suc.IH [OF rest])
qed

lemma postWithRetry_response:
  assumes "post svc m = Emits response"
  shows "postWithRetry svc ctx config ep body m w =
         Some (Emits (ctx\<lparr>authResult := Some (response(''state'' \<mapsto> state ctx,
                                                    ''session_state'' \<mapsto> sessionState ctx))\<rparr>),
               w\<lparr>events := events w @ [Post ep body (configId config)]\<rparr>)"
  using assms by (subst postWithRetry.simps) (simp add: perform_def)

lemma postWithRetry_failure:
  assumes "post svc m = Throws e" and "\<not> noInternetConnection e"
  shows "postWithRetry svc ctx config ep body m w =
         Some (Throws (Error_msg (''OidcService code request '' @ authority config)),
               w\<lparr>events := events w @ [Post ep body (configId config),
                     LogError (''OidcService code request '' @ authority config)]\<rparr>)"
  using assms
  by (subst postWithRetry.simps)
     (simp add: handleRefreshRetry_def codeRequestCatchError_def perform_def Let_def)

section \<open>One call and one subscription of the renewal pipeline\<close>

lemma startRefreshSession_unfold:
  "startRefreshSession svc env config extraCustomParams w =
     (let isRunning = isSilentRenewRunning w config;
          w1 = perform (LogDebug (''Checking: silentRenewRunning: '' @ (if isRunning then ''true'' else ''false''))) w
      in if isRunning then (Emits RNull, w1)
         else if js_falsy (authWellknownEndpointUrl config) then
           (Emits RNull, perform (LogError ''no authWellKnownEndpoint given!'') w1)
         else
           (let url = (case authWellknownEndpointUrl config of None \<Rightarrow> [] | Some u \<Rightarrow> u);
                w2 = perform (GetAuthWellKnownEndPoints url (configId config)) w1
            in case wellKnownOutcome env of
                 Emits _ \<Rightarrow>
                   (let w3 = setSilentRenewRunning (configId config) w2
                    in if isCurrentFlowCodeFlowWithRefreshTokens svc config then
                         (refreshTokensOutcome env,
                          perform (RefreshSessionWithRefreshTokens (configId config) extraCustomParams) w3)
                       else
                         (iframeOutcome env,
                          perform (RefreshSessionWithIframe (configId config) extraCustomParams) w3))
               | Throws e \<Rightarrow> (Throws e, w2)
               | Silent \<Rightarrow> (Silent, w2)))"
  by (simp add: startRefreshSession_def startRefreshSession_call_def
      startRefreshSession_subscribe_def Let_def)

lemma startRefreshSession_events:
  "events (snd (startRefreshSession svc env config extra w)) =
     events w @ startEvents svc env config extra w"
  by (simp add: startRefreshSession_unfold startEvents_def isSilentRenewRunning_def Let_def
      split: outcome.splits)

lemma startRefreshSession_ignores_signal:
  "startRefreshSession (svc\<lparr>attempt := a\<rparr>) (env\<lparr>iframeCompleted := c\<rparr>) config extra w =
   startRefreshSession svc env config extra w"
  by (simp add: startRefreshSession_unfold Let_def split: outcome.splits)

lemma startEvents_no_timers:
  "TimeoutElapsed ms \<notin> set (startEvents svc env config extra w) \<and>
   Timer ms \<notin> set (startEvents svc env config extra w)"
  by (simp add: startEvents_def split: outcome.splits)

lemma startEvents_dispatch:
  "RefreshSessionWithIframe c p \<in> set (startEvents svc env config extra w) \<Longrightarrow> p = extra"
  "RefreshSessionWithRefreshTokens c p \<in> set (startEvents svc env config extra w) \<Longrightarrow>
     p = extra \<and> isCurrentFlowCodeFlowWithRefreshTokens svc config"
  by (auto simp add: startEvents_def split: if_splits outcome.splits)

text \<open>The first subscription of the join, right after the call, in terms of
  \<open>startRefreshSession\<close> called and subscribed once.\<close>

lemma forkJoin_after_call:
  assumes "startRefreshSession_call config w = (source, w0)"
  shows "forkJoinWithTimeout svc env config extra source t w0 =
     (case startRefreshSession svc env config extra w of
        (Throws e, w1) \<Rightarrow> (Throws e, w1)
      | (Emits v, w1) \<Rightarrow>
          (case iframeCompleted env of
             Some callbackContext \<Rightarrow> (Emits (v, callbackContext), w1)
           | None \<Rightarrow> (Throws TimeoutError, perform (TimeoutElapsed t) w1))
      | (Silent, w1) \<Rightarrow> (Throws TimeoutError, perform (TimeoutElapsed t) w1))"
  using assms by (simp add: forkJoinWithTimeout_def startRefreshSession_def)

section \<open>The retry loop of the renewal pipeline\<close>

text \<open>What the strategy does when it is given a configuration: a timeout with index below
  \<open>MAX_RETRY_ATTEMPTS\<close> clears the flag and asks for a delay of \<open>(index + 1) * 1000\<close> ms;
  any other error ends the pipeline and leaves the world as it is.\<close>

lemma timeoutRetryStrategy_with_config:
  "timeoutRetryStrategy (Some c) TimeoutError index w =
     (if index < MAX_RETRY_ATTEMPTS then
        (Inr ((index + 1) * 1000),
         resetSilentRenewRunning (configId c)
           (perform (LogDebug (''forceRefreshSession timeout. Attempt #'' @ numberToString (index + 1))) w))
      else (Inl (Error_of TimeoutError), w))"
  by (simp add: timeoutRetryStrategy_def Let_def)

lemma timeoutRetryStrategy_other_error:
  "error \<noteq> TimeoutError \<Longrightarrow> timeoutRetryStrategy (Some c) error index w = (Inl (Error_of error), w)"
  by (simp add: timeoutRetryStrategy_def Let_def)

text \<open>With the configuration supplied to the notifier, four timeouts in a row are answered
  by delays of 1000, 2000 and 3000 ms and then by the wrapped timeout; each subscription
  starts an iframe renewal, and \<open>startRefreshSession\<close> is not called again.\<close>

lemma renewWithRetry_with_config_backoff:
  "fst (renewWithRetry (iframeServices (\<lambda>_. timeoutAttempt)) iframeConfig None WellKnownPipe 20000
          (Some iframeConfig) 0 idleWorld) = Throws (Error_of TimeoutError)
 \<and> filter isTimer (events (snd (renewWithRetry (iframeServices (\<lambda>_. timeoutAttempt)) iframeConfig None
          WellKnownPipe 20000 (Some iframeConfig) 0 idleWorld))) = [Timer 1000, Timer 2000, Timer 3000]
 \<and> filter isDispatch (events (snd (renewWithRetry (iframeServices (\<lambda>_. timeoutAttempt)) iframeConfig None
          WellKnownPipe 20000 (Some iframeConfig) 0 idleWorld))) =
      [RefreshSessionWithIframe ''a'' None, RefreshSessionWithIframe ''a'' None,
       RefreshSessionWithIframe ''a'' None, RefreshSessionWithIframe ''a'' None]
 \<and> filter isWellKnownCall (events (snd (renewWithRetry (iframeServices (\<lambda>_. timeoutAttempt)) iframeConfig None
          WellKnownPipe 20000 (Some iframeConfig) 0 idleWorld))) = []"
  by (simp add: renewWithRetry.simps forkJoinWithTimeout_def startRefreshSession_subscribe_def
        timeoutRetryStrategy_def Let_def
        MAX_RETRY_ATTEMPTS_def iframeServices_def timeoutAttempt_def iframeConfig_def idleWorld_def)

lemma renewWithRetry_undefined_config:
  "renewWithRetry svc config extra source t None index w =
     (case forkJoinWithTimeout svc (attempt svc index) config extra source t w of
        (Emits v, w1) \<Rightarrow> (Emits v, w1)
      | (Silent, w1) \<Rightarrow> (Silent, w1)
      | (Throws error, w1) \<Rightarrow>
          (Throws (TypeError ''Cannot destructure property configId of undefined''), w1))"
  by (subst renewWithRetry.simps)
     (simp add: timeoutRetryStrategy_def split: prod.splits outcome.splits)

text \<open>\<open>forceRefreshSession\<close> on the iframe path, in terms of \<open>startRefreshSession\<close> called and
  subscribed once and of the signal of that subscription.\<close>

lemma forceRefreshSession_iframe_unfold:
  assumes "\<not> isCurrentFlowCodeFlowWithRefreshTokens svc config"
  shows "forceRefreshSession svc config extra w =
     (case startRefreshSession svc (attempt svc 0) config extra w of
        (Emits v, w1) \<Rightarrow>
          (case iframeCompleted (attempt svc 0) of
             Some callbackContext \<Rightarrow>
               (Emits (if areAuthStorageTokensValid svc config then
                         Some \<lparr>idToken = authResultMember callbackContext ''id_token'',
                               accessToken = authResultMember callbackContext ''access_token'',
                               userData = getUserDataFromStore svc config,
                               isAuthenticated = True,
                               loginConfigId = configId config\<rparr>
                       else None), w1)
           | None \<Rightarrow>
               (Throws (TypeError ''Cannot destructure property configId of undefined''),
                perform (TimeoutElapsed (silentRenewTimeoutInSeconds config * 1000)) w1))
      | (Throws e, w1) \<Rightarrow>
          (Throws (TypeError ''Cannot destructure property configId of undefined''), w1)
      | (Silent, w1) \<Rightarrow>
          (Throws (TypeError ''Cannot destructure property configId of undefined''),
           perform (TimeoutElapsed (silentRenewTimeoutInSeconds config * 1000)) w1))"
proof -
  obtain source w0 where call: "startRefreshSession_call config w = (source, w0)"
    by (cases "startRefreshSession_call config w")
  obtain o1 w1 where s: "startRefreshSession svc (attempt svc 0) config extra w = (o1, w1)"
    by (cases "startRefreshSession svc (attempt svc 0) config extra w")
  show ?thesis
    using assms
    by (cases o1; cases "iframeCompleted (attempt svc 0)")
       (simp_all add: forceRefreshSession_def Let_def call renewWithRetry_undefined_config
          forkJoin_after_call [OF call] s)
qed

lemma forceRefreshSession_iframe_events:
  assumes "\<not> isCurrentFlowCodeFlowWithRefreshTokens svc config"
  shows "\<exists>tl. new_events w (snd (forceRefreshSession svc config extra w)) =
               startEvents svc (attempt svc 0) config extra w @ tl
             \<and> set tl \<subseteq> {TimeoutElapsed (silentRenewTimeoutInSeconds config * 1000)}"
proof -
  obtain o1 w1 where s: "startRefreshSession svc (attempt svc 0) config extra w = (o1, w1)"
    by (cases "startRefreshSession svc (attempt svc 0) config extra w")
  have "events w1 = events w @ startEvents svc (attempt svc 0) config extra w"
    using startRefreshSession_events [of svc "attempt svc 0" config extra w] s by simp
  then show ?thesis
    by (cases o1; cases "iframeCompleted (attempt svc 0)")
       (simp_all add: forceRefreshSession_iframe_unfold [OF assms] s new_events_def)
qed

section \<open>Claims about the code-flow callback handler\<close>

text \<open>
  Claim C5. For every return URL, \<open>codeFlowCallback\<close> fails with the missing-state error
  when the \<open>state\<close> parameter is absent, whether or not \<open>code\<close> is present; it fails with
  the missing-code error when \<open>state\<close> is present and \<open>code\<close> is absent; and when both are
  present it returns a fresh callback context that carries exactly the extracted \<open>code\<close>,
  \<open>state\<close> and \<open>session_state\<close>, with \<open>isRenewProcess = false\<close> and every other field
  null. The call touches neither network nor storage: the flag store is unchanged and the
  only effect is one debug log record. A parameter counts as absent when the extraction
  yields nothing or the empty string, which is what the negation in the source tests.
\<close>

theorem codeFlowCallback_outcomes:
  fixes svc url config w
  defines "st \<equiv> getUrlParameter svc url ''state''"
    and "cd \<equiv> getUrlParameter svc url ''code''"
    and "r \<equiv> codeFlowCallback svc url config w"
  shows "(js_falsy st \<longrightarrow> fst r = Throws (Error_msg ''no state in url''))
     \<and> (\<not> js_falsy st \<and> js_falsy cd \<longrightarrow> fst r = Throws (Error_msg ''no code in url''))
     \<and> (\<not> js_falsy st \<and> \<not> js_falsy cd \<longrightarrow>
           fst r = Emits \<lparr>code = cd, refreshToken = None, state = st,
                           sessionState = getUrlParameter svc url ''session_state'',
                           authResult = None, isRenewProcess = False, jwtKeys = None,
                           validationResult = None, existingIdToken = None\<rparr>)
     \<and> silentRenewRunning (snd r) = silentRenewRunning w
     \<and> (\<exists>m. events (snd r) = events w @ [LogDebug m])"
  unfolding st_def cd_def r_def
  by (simp add: codeFlowCallback_def Let_def)

theorem codeFlowCallback_outcomes_witness:
  "fst (codeFlowCallback recoveringServices ''https://app/callback?code=abc&state=xyz''
          iframeConfig idleWorld) = Emits callbackContextDemo
 \<and> fst (codeFlowCallback recoveringServices ''https://app/callback?code=abc''
          iframeConfig idleWorld) = Throws (Error_msg ''no state in url'')"
  using codeFlowCallback_outcomes [where svc = recoveringServices
          and url = "''https://app/callback?code=abc&state=xyz''"
          and config = iframeConfig and w = idleWorld]
        codeFlowCallback_outcomes [where svc = recoveringServices
          and url = "''https://app/callback?code=abc''"
          and config = iframeConfig and w = idleWorld]
  by (simp add: recoveringServices_def callbackContextDemo_def js_falsy_def)

text \<open>
  Claim C6. \<open>codeFlowCodeRequest\<close> issues no network call and fails with the
  state-mismatch error whenever the stored anti-forgery value is not exactly the state of
  the context; it issues no network call and fails with the missing-token-endpoint error
  whenever the state matches and the cached well-known metadata has no token endpoint. The
  state is compared first: a mismatch gives the state error whatever the metadata holds.
  In both cases the world is returned as it was received.
\<close>

theorem codeFlowCodeRequest_guards:
  "(getAuthStateControl svc (configId config) \<noteq> state callbackContext \<longrightarrow>
      codeFlowCodeRequest svc callbackContext config w =
        Some (Throws (Error_msg ''codeFlowCodeRequest incorrect state''), w))
 \<and> (getAuthStateControl svc (configId config) = state callbackContext \<and>
      js_falsy (case readAuthWellKnownEndPoints svc (configId config) of
                  None \<Rightarrow> None | Some endpoints \<Rightarrow> tokenEndpoint endpoints) \<longrightarrow>
      codeFlowCodeRequest svc callbackContext config w =
        Some (Throws (Error_msg ''Token Endpoint not defined''), w))"
  by (auto simp add: codeFlowCodeRequest_def validateStateFromHashCallback_def js_falsy_def Let_def
      split: option.splits)

theorem codeFlowCodeRequest_guards_witness:
  "getAuthStateControl recoveringServices (configId iframeConfig)
     \<noteq> state (callbackContextDemo\<lparr>state := Some ''forged''\<rparr>)
 \<and> codeFlowCodeRequest recoveringServices (callbackContextDemo\<lparr>state := Some ''forged''\<rparr>)
      iframeConfig idleWorld =
      Some (Throws (Error_msg ''codeFlowCodeRequest incorrect state''), idleWorld)
 \<and> codeFlowCodeRequest recoveringServices callbackContextDemo (iframeConfig\<lparr>configId := ''b''\<rparr>)
      idleWorld =
      Some (Throws (Error_msg ''Token Endpoint not defined''), idleWorld)"
  using codeFlowCodeRequest_guards [where svc = recoveringServices
          and callbackContext = "callbackContextDemo\<lparr>state := Some ''forged''\<rparr>"
          and config = iframeConfig and w = idleWorld]
        codeFlowCodeRequest_guards [where svc = recoveringServices
          and callbackContext = callbackContextDemo
          and config = "iframeConfig\<lparr>configId := ''b''\<rparr>" and w = idleWorld]
  by (simp add: recoveringServices_def callbackContextDemo_def iframeConfig_def js_falsy_def)

text \<open>
  Claim C3. In \<open>codeFlowCodeRequest\<close>, a POST that fails with the transport error of a
  missing network connection is followed by a delay of the configuration's refresh-retry
  delay (\<open>refreshTokenRetryInSeconds * 1000\<close> ms) and a new POST, for any number \<open>n\<close> of such
  failures; when the next attempt returns a response the exchange succeeds with the context
  carrying that response stamped with \<open>state\<close> and \<open>session_state\<close>. When an attempt fails
  with any other error the exchange ends right there with an error tagged with the
  provider authority, after no further POST; for \<open>n = 0\<close> that is exactly one attempt.
\<close>

theorem codeFlowCodeRequest_retry:
  fixes svc ctx config w n ep
  defines "body \<equiv> createBodyForCodeFlowCodeRequest svc (code ctx) config (customParamsCodeRequest config)"
  assumes st: "getAuthStateControl svc (configId config) = state ctx"
    and ep: "readAuthWellKnownEndPoints svc (configId config) = Some endpoints"
            "tokenEndpoint endpoints = Some ep" "ep \<noteq> []"
    and retries: "\<forall>i<n. post svc i = Throws noInternet"
  shows "(\<forall>response. post svc n = Emits response \<longrightarrow>
            codeFlowCodeRequest svc ctx config w =
              Some (Emits (ctx\<lparr>authResult := Some (response(''state'' \<mapsto> state ctx,
                                                        ''session_state'' \<mapsto> sessionState ctx))\<rparr>),
                    w\<lparr>events := events w @ concat (replicate n (retryRound ep body config))
                                  @ [Post ep body (configId config)]\<rparr>))
       \<and> (\<forall>e. post svc n = Throws e \<and> \<not> noInternetConnection e \<longrightarrow>
            codeFlowCodeRequest svc ctx config w =
              Some (Throws (Error_msg (''OidcService code request '' @ authority config)),
                    w\<lparr>events := events w @ concat (replicate n (retryRound ep body config))
                                  @ [Post ep body (configId config),
                                     LogError (''OidcService code request '' @ authority config)]\<rparr>))"
proof -
  have start: "codeFlowCodeRequest svc ctx config w = postWithRetry svc ctx config ep body 0 w"
    using st ep
    by (simp add: codeFlowCodeRequest_def validateStateFromHashCallback_def body_def)
  have skip: "postWithRetry svc ctx config ep body 0 w =
      postWithRetry svc ctx config ep body n
        (w\<lparr>events := events w @ concat (replicate n (retryRound ep body config))\<rparr>)"
    using postWithRetry_skip [of n svc 0 ctx config ep body w] retries by simp
  show ?thesis
    by (auto simp add: start skip postWithRetry_response postWithRetry_failure)
qed

theorem codeFlowCodeRequest_retry_witness:
  "post recoveringServices 0 = Throws noInternet
 \<and> post recoveringServices 1 = Throws noInternet
 \<and> post recoveringServices 2 = Emits tokenResponse
 \<and> codeFlowCodeRequest recoveringServices callbackContextDemo iframeConfig idleWorld =
     Some (Emits (callbackContextDemo\<lparr>authResult :=
                    Some (tokenResponse(''state'' \<mapsto> Some ''xyz'', ''session_state'' \<mapsto> None))\<rparr>),
           idleWorld\<lparr>events :=
             retryRound ''https://idp/token'' ''grant_type=authorization_code'' iframeConfig
             @ retryRound ''https://idp/token'' ''grant_type=authorization_code'' iframeConfig
             @ [Post ''https://idp/token'' ''grant_type=authorization_code'' ''a'']\<rparr>)
 \<and> codeFlowCodeRequest rejectingServices callbackContextDemo iframeConfig idleWorld =
     Some (Throws (Error_msg ''OidcService code request https://idp''),
           idleWorld\<lparr>events :=
             [Post ''https://idp/token'' ''grant_type=authorization_code'' ''a'',
              LogError ''OidcService code request https://idp'']\<rparr>)"
proof -
  have st: "getAuthStateControl recoveringServices (configId iframeConfig) = state callbackContextDemo"
    by (simp add: recoveringServices_def callbackContextDemo_def)
  have ep: "readAuthWellKnownEndPoints recoveringServices (configId iframeConfig)
              = Some \<lparr>tokenEndpoint = Some ''https://idp/token''\<rparr>"
    by (simp add: recoveringServices_def iframeConfig_def)
  have retries: "\<forall>i<2. post recoveringServices i = Throws noInternet"
    by (simp add: recoveringServices_def)
  have answer: "post recoveringServices 2 = Emits tokenResponse"
    by (simp add: recoveringServices_def)
  have st': "getAuthStateControl rejectingServices (configId iframeConfig) = state callbackContextDemo"
    by (simp add: rejectingServices_def recoveringServices_def callbackContextDemo_def)
  have ep': "readAuthWellKnownEndPoints rejectingServices (configId iframeConfig)
              = Some \<lparr>tokenEndpoint = Some ''https://idp/token''\<rparr>"
    by (simp add: rejectingServices_def recoveringServices_def iframeConfig_def)
  have none: "\<forall>i<0. post rejectingServices i = Throws noInternet"
    by simp
  have reject: "post rejectingServices 0 = Throws (HttpErrorResponse (ErrorBody ''invalid_grant''))"
    by (simp add: rejectingServices_def)
  have first: "post recoveringServices 0 = Throws noInternet"
    and second: "post recoveringServices 1 = Throws noInternet"
    by (simp_all add: recoveringServices_def)
  have body: "createBodyForCodeFlowCodeRequest recoveringServices c iframeConfig p
                = ''grant_type=authorization_code''"
             "createBodyForCodeFlowCodeRequest rejectingServices c iframeConfig p
                = ''grant_type=authorization_code''" for c p
    by (simp_all add: rejectingServices_def recoveringServices_def)
  have two: "concat (replicate 2 xs) = xs @ xs" for xs :: "event list"
    by (simp add: numeral_2_eq_2)
  show ?thesis
    using codeFlowCodeRequest_retry [OF st ep _ _ retries, where w = idleWorld]
          codeFlowCodeRequest_retry [OF st' ep' _ _ none, where w = idleWorld]
          answer reject first second
    by (simp add: body two)
       (simp add: iframeConfig_def callbackContextDemo_def idleWorld_def)
qed

section \<open>Claims about the implicit-flow callback\<close>

text \<open>
  Claim C8. When the delegated implicit-flow callback processing fails,
  \<open>authenticatedImplicitFlowCallback\<close> always clears the silent-renewal-in-progress flag of
  the configuration and stops the periodic token check, whatever the delegate did to the
  world; it navigates to \<open>unauthorizedRoute\<close> if and only if the configuration is not in
  event-delivery mode and the flag read before the delegation was false; and in every
  case the caller receives the original error wrapped in a new error.
\<close>

theorem implicit_callback_failure:
  assumes "processImplicitFlowCallback config allConfigs hash w = (Throws error, w1)"
  defines "r \<equiv> authenticatedImplicitFlowCallback processImplicitFlowCallback config allConfigs hash w"
  shows "fst r = Throws (Error_of error)
     \<and> silentRenewRunning (snd r) = (silentRenewRunning w1)(configId config := False)
     \<and> events (snd r) = events w1 @
         [ResetSilentRenewRunning (configId config), StopPeriodicTokenCheck] @
         (if \<not> triggerAuthorizationResultEvent config \<and> \<not> silentRenewRunning w (configId config)
          then [NavigateByUrl (unauthorizedRoute config)] else [])
     \<and> (NavigateByUrl (unauthorizedRoute config) \<in> set (new_events w1 (snd r)) \<longleftrightarrow>
          \<not> triggerAuthorizationResultEvent config \<and> \<not> silentRenewRunning w (configId config))"
  using assms(1) unfolding r_def
  by (simp add: authenticatedImplicitFlowCallback_def isSilentRenewRunning_def Let_def
      new_events_def)

theorem implicit_callback_failure_witness:
  "fst (authenticatedImplicitFlowCallback failingProcessor iframeConfig [iframeConfig] None idleWorld)
     = Throws (Error_of (OtherError ''invalid id_token''))
 \<and> \<not> silentRenewRunning
       (snd (authenticatedImplicitFlowCallback failingProcessor iframeConfig [iframeConfig] None idleWorld))
       ''a''
 \<and> events (snd (authenticatedImplicitFlowCallback failingProcessor iframeConfig [iframeConfig] None
               idleWorld))
     = [SetSilentRenewRunning ''a'', ResetSilentRenewRunning ''a'', StopPeriodicTokenCheck,
        NavigateByUrl ''/unauthorized'']"
proof -
  have fails: "failingProcessor iframeConfig [iframeConfig] None idleWorld =
         (Throws (OtherError ''invalid id_token''), setSilentRenewRunning (configId iframeConfig) idleWorld)"
    by (simp add: failingProcessor_def)
  show ?thesis
    using implicit_callback_failure [where processImplicitFlowCallback = failingProcessor
            and config = iframeConfig and allConfigs = "[iframeConfig]" and hash = None
            and w = idleWorld, OF fails]
    by (simp add: iframeConfig_def idleWorld_def)
qed

section \<open>Claims about the refresh-session service\<close>

text \<open>
  Claim C4. \<open>startRefreshSession\<close> returns null at once, with no metadata fetch, no
  network call and no write to the in-progress flag, when a renewal is already in progress
  for the configuration; it likewise returns null, after logging an error, when no
  well-known endpoint URL is configured. Otherwise it fetches the well-known metadata; it
  sets the in-progress flag only once that fetch has resolved, and only after that it
  dispatches to the refresh-token exchange or to the iframe renewal. While the fetch has
  not resolved the flag is not set and nothing is dispatched.
\<close>

theorem startRefreshSession_gates:
  fixes svc env config extra w
  defines "cid \<equiv> configId config"
    and "r \<equiv> startRefreshSession svc env config extra w"
  shows "(silentRenewRunning w cid \<longrightarrow>
            fst r = Emits RNull \<and> silentRenewRunning (snd r) = silentRenewRunning w
          \<and> events (snd r) = events w @ [LogDebug ''Checking: silentRenewRunning: true''])
     \<and> (\<not> silentRenewRunning w cid \<and> js_falsy (authWellknownEndpointUrl config) \<longrightarrow>
            fst r = Emits RNull \<and> silentRenewRunning (snd r) = silentRenewRunning w
          \<and> events (snd r) = events w @ [LogDebug ''Checking: silentRenewRunning: false'',
                                          LogError ''no authWellKnownEndpoint given!''])
     \<and> (\<forall>url. \<not> silentRenewRunning w cid \<and> authWellknownEndpointUrl config = Some url \<and> url \<noteq> [] \<longrightarrow>
          (if wellKnownOutcome env = Emits () then
             fst r = (if isCurrentFlowCodeFlowWithRefreshTokens svc config
                      then refreshTokensOutcome env else iframeOutcome env)
           \<and> silentRenewRunning (snd r) = (silentRenewRunning w)(cid := True)
           \<and> events (snd r) = events w @
               [LogDebug ''Checking: silentRenewRunning: false'',
                GetAuthWellKnownEndPoints url cid,
                SetSilentRenewRunning cid,
                if isCurrentFlowCodeFlowWithRefreshTokens svc config
                then RefreshSessionWithRefreshTokens cid extra
                else RefreshSessionWithIframe cid extra]
           else
             (\<forall>v. fst r \<noteq> Emits v) \<and> silentRenewRunning (snd r) = silentRenewRunning w
           \<and> events (snd r) = events w @
               [LogDebug ''Checking: silentRenewRunning: false'',
                GetAuthWellKnownEndPoints url cid]))"
  unfolding cid_def r_def
  by (auto simp add: startRefreshSession_unfold isSilentRenewRunning_def js_falsy_def Let_def
      split: outcome.splits)

theorem startRefreshSession_gates_witness:
  "fst (startRefreshSession (iframeServices (\<lambda>_. timeoutAttempt)) timeoutAttempt iframeConfig None
          busyWorld) = Emits RNull
 \<and> events (snd (startRefreshSession (iframeServices (\<lambda>_. timeoutAttempt)) timeoutAttempt iframeConfig
                  None busyWorld)) = [LogDebug ''Checking: silentRenewRunning: true'']
 \<and> fst (startRefreshSession (iframeServices (\<lambda>_. timeoutAttempt)) timeoutAttempt iframeConfig None
          idleWorld) = Emits (RBoolean True)
 \<and> events (snd (startRefreshSession (iframeServices (\<lambda>_. timeoutAttempt)) timeoutAttempt iframeConfig
                  None idleWorld)) =
     [LogDebug ''Checking: silentRenewRunning: false'',
      GetAuthWellKnownEndPoints ''https://idp/.well-known/openid-configuration'' ''a'',
      SetSilentRenewRunning ''a'',
      RefreshSessionWithIframe ''a'' None]"
  using startRefreshSession_gates [where svc = "iframeServices (\<lambda>_. timeoutAttempt)"
          and env = timeoutAttempt and config = iframeConfig and extra = None and w = busyWorld]
        startRefreshSession_gates [where svc = "iframeServices (\<lambda>_. timeoutAttempt)"
          and env = timeoutAttempt and config = iframeConfig and extra = None and w = idleWorld]
  by (simp add: iframeServices_def timeoutAttempt_def iframeConfig_def busyWorld_def idleWorld_def)

text \<open>
  Claim C7. For a configuration whose flow is code flow with refresh tokens,
  \<open>forceRefreshSession\<close> invokes \<open>startRefreshSession\<close> (with the merged parameters) and does
  nothing else to the world; when that call emits, the result is a login response built
  from the stored ID token, the stored access token and the stored user data, with
  \<open>isAuthenticated\<close> true and the configuration id, if the stored tokens are valid, and null
  if they are not. The path arms no timeout and waits for no retry delay, and its result
  does not depend on the iframe-completed signal.
\<close>

theorem forceRefreshSession_refresh_token_path:
  fixes svc config extra w
  defines "mergedParams \<equiv> spreadParams (customParamsRefreshTokenRequest config) extra"
  defines "s \<equiv> startRefreshSession svc (attempt svc 0) config (Some mergedParams) w"
    and "r \<equiv> forceRefreshSession svc config extra w"
  assumes refresh: "isCurrentFlowCodeFlowWithRefreshTokens svc config"
  shows "snd r = snd s
       \<and> ((\<exists>v. fst s = Emits v) \<longrightarrow>
            fst r = Emits (if areAuthStorageTokensValid svc config then
                             Some \<lparr>idToken = getIdToken svc (configId config),
                                   accessToken = getAccessToken svc (configId config),
                                   userData = getUserDataFromStore svc config,
                                   isAuthenticated = True,
                                   loginConfigId = configId config\<rparr>
                           else None))
       \<and> (\<forall>ms. TimeoutElapsed ms \<notin> set (new_events w (snd r)) \<and> Timer ms \<notin> set (new_events w (snd r)))
       \<and> (\<forall>signal. forceRefreshSession
                      (svc\<lparr>attempt := \<lambda>n. (attempt svc n)\<lparr>iframeCompleted := signal n\<rparr>\<rparr>)
                      config extra w = r)"
proof -
  have world: "snd r = snd s"
    using refresh unfolding r_def s_def mergedParams_def
    by (simp add: forceRefreshSession_def Let_def split: prod.splits outcome.splits)
  have result: "fst r = Emits (if areAuthStorageTokensValid svc config then
                             Some \<lparr>idToken = getIdToken svc (configId config),
                                   accessToken = getAccessToken svc (configId config),
                                   userData = getUserDataFromStore svc config,
                                   isAuthenticated = True,
                                   loginConfigId = configId config\<rparr>
                           else None)"
    if "\<exists>v. fst s = Emits v"
    using that refresh unfolding r_def s_def mergedParams_def
    by (cases "startRefreshSession svc (attempt svc 0) config
                 (Some (spreadParams (customParamsRefreshTokenRequest config) extra)) w")
       (auto simp add: forceRefreshSession_def Let_def)
  have "new_events w (snd r) = startEvents svc (attempt svc 0) config (Some mergedParams) w"
    unfolding world s_def by (simp add: new_events_def startRefreshSession_events)
  then have quiet: "\<forall>ms. TimeoutElapsed ms \<notin> set (new_events w (snd r))
                       \<and> Timer ms \<notin> set (new_events w (snd r))"
    by (simp add: startEvents_no_timers)
  have signal: "forceRefreshSession
                  (svc\<lparr>attempt := \<lambda>n. (attempt svc n)\<lparr>iframeCompleted := signal n\<rparr>\<rparr>)
                  config extra w = r" for signal
    using refresh unfolding r_def
    by (simp add: forceRefreshSession_def startRefreshSession_ignores_signal
        split: prod.splits outcome.splits)
  from world result quiet signal show ?thesis by blast
qed

theorem forceRefreshSession_refresh_token_path_witness:
  "isCurrentFlowCodeFlowWithRefreshTokens refreshTokenServices iframeConfig
 \<and> fst (startRefreshSession refreshTokenServices (attempt refreshTokenServices 0) iframeConfig
          (Some (spreadParams (customParamsRefreshTokenRequest iframeConfig) (Some extraDemo)))
          idleWorld) = Emits (RBoolean True)
 \<and> fst (forceRefreshSession refreshTokenServices iframeConfig (Some extraDemo) idleWorld) =
     Emits (Some \<lparr>idToken = Some ''stored-id-token'', accessToken = Some ''stored-access-token'',
                  userData = Some ''alice'', isAuthenticated = True, loginConfigId = ''a''\<rparr>)"
proof -
  have path: "isCurrentFlowCodeFlowWithRefreshTokens refreshTokenServices iframeConfig"
    by (simp add: refreshTokenServices_def)
  have started: "fst (startRefreshSession refreshTokenServices (attempt refreshTokenServices 0)
          iframeConfig (Some (spreadParams (customParamsRefreshTokenRequest iframeConfig) (Some extraDemo)))
          idleWorld) = Emits (RBoolean True)"
    by (simp add: startRefreshSession_unfold isSilentRenewRunning_def js_falsy_def Let_def
        refreshTokenServices_def refreshedAttempt_def iframeConfig_def idleWorld_def)
  show ?thesis
    using forceRefreshSession_refresh_token_path [OF path, where extra = "Some extraDemo"
            and w = idleWorld] path started
    by (simp add: refreshTokenServices_def iframeConfig_def)
qed

text \<open>
  Claim C10. \<open>forceRefreshSession\<close> merges the configuration's
  \<open>customParamsRefreshTokenRequest\<close> with the extra parameters of the caller, a value of the
  caller replacing a configured value under the same key. The merged map is what it passes
  to \<open>startRefreshSession\<close> on the refresh-token path, where it reaches the refresh-token
  exchange. On the iframe path it passes the caller's extra parameters alone: every
  iframe renewal it starts receives exactly those, and the configured
  \<open>customParamsRefreshTokenRequest\<close> are not forwarded.
\<close>

theorem forceRefreshSession_forwarded_params:
  fixes svc config extra w
  defines "mergedParams \<equiv> spreadParams (customParamsRefreshTokenRequest config) extra"
    and "r \<equiv> forceRefreshSession svc config extra w"
    and "cid \<equiv> configId config"
  defines "dispatched \<equiv> \<not> silentRenewRunning w cid \<and> \<not> js_falsy (authWellknownEndpointUrl config)
                          \<and> wellKnownOutcome (attempt svc 0) = Emits ()"
  shows "(\<forall>k. mergedParams k =
            (case (case extra of None \<Rightarrow> None | Some m \<Rightarrow> m k) of
               Some v \<Rightarrow> Some v
             | None \<Rightarrow> (case customParamsRefreshTokenRequest config of None \<Rightarrow> None | Some m \<Rightarrow> m k)))
       \<and> (isCurrentFlowCodeFlowWithRefreshTokens svc config \<longrightarrow>
            snd r = snd (startRefreshSession svc (attempt svc 0) config (Some mergedParams) w)
          \<and> (dispatched \<longrightarrow> last (events (snd r)) = RefreshSessionWithRefreshTokens cid (Some mergedParams)))
       \<and> (\<not> isCurrentFlowCodeFlowWithRefreshTokens svc config \<longrightarrow>
            (dispatched \<longrightarrow> RefreshSessionWithIframe cid extra \<in> set (new_events w (snd r)))
          \<and> (\<forall>c p. RefreshSessionWithIframe c p \<in> set (new_events w (snd r)) \<longrightarrow> p = extra)
          \<and> (\<forall>c p. RefreshSessionWithRefreshTokens c p \<notin> set (new_events w (snd r))))"
proof -
  have spread: "mergedParams k =
            (case (case extra of None \<Rightarrow> None | Some m \<Rightarrow> m k) of
               Some v \<Rightarrow> Some v
             | None \<Rightarrow> (case customParamsRefreshTokenRequest config of None \<Rightarrow> None | Some m \<Rightarrow> m k))" for k
    unfolding mergedParams_def
    by (simp add: spreadParams_def map_add_def split: option.splits)
  have refresh: "snd r = snd (startRefreshSession svc (attempt svc 0) config (Some mergedParams) w)
          \<and> (dispatched \<longrightarrow> last (events (snd r)) = RefreshSessionWithRefreshTokens cid (Some mergedParams))"
    if "isCurrentFlowCodeFlowWithRefreshTokens svc config"
  proof -
    have world: "snd r = snd (startRefreshSession svc (attempt svc 0) config (Some mergedParams) w)"
      using that unfolding r_def mergedParams_def
      by (simp add: forceRefreshSession_def Let_def split: prod.splits outcome.splits)
    have "last (events (snd r)) = RefreshSessionWithRefreshTokens cid (Some mergedParams)" if dispatched
      using that \<open>isCurrentFlowCodeFlowWithRefreshTokens svc config\<close>
      unfolding world dispatched_def cid_def
      by (simp add: startRefreshSession_events startEvents_def)
    with world show ?thesis by blast
  qed
  have iframe: "(dispatched \<longrightarrow> RefreshSessionWithIframe cid extra \<in> set (new_events w (snd r)))
          \<and> (\<forall>c p. RefreshSessionWithIframe c p \<in> set (new_events w (snd r)) \<longrightarrow> p = extra)
          \<and> (\<forall>c p. RefreshSessionWithRefreshTokens c p \<notin> set (new_events w (snd r)))"
    if path: "\<not> isCurrentFlowCodeFlowWithRefreshTokens svc config"
  proof -
    obtain tl where ev: "new_events w (snd r) = startEvents svc (attempt svc 0) config extra w @ tl"
      and tl: "set tl \<subseteq> {TimeoutElapsed (silentRenewTimeoutInSeconds config * 1000)}"
      using forceRefreshSession_iframe_events [OF path] unfolding r_def by blast
    have a: "RefreshSessionWithIframe cid extra \<in> set (new_events w (snd r))" if dispatched
      using that path unfolding ev dispatched_def cid_def by (simp add: startEvents_def)
    have b: "p = extra" if "RefreshSessionWithIframe c p \<in> set (new_events w (snd r))" for c p
      using that tl startEvents_dispatch(1) unfolding ev by auto
    have c: "RefreshSessionWithRefreshTokens c p \<notin> set (new_events w (snd r))" for c p
      using tl startEvents_dispatch(2) path unfolding ev by auto
    from a b c show ?thesis by blast
  qed
  from spread refresh iframe show ?thesis by blast
qed

theorem forceRefreshSession_forwarded_params_witness:
  "spreadParams (customParamsRefreshTokenRequest iframeConfig) (Some extraDemo) ''scope''
     = Some (PString ''openid'')
 \<and> spreadParams (customParamsRefreshTokenRequest iframeConfig) (Some extraDemo) ''prompt''
     = Some (PString ''none'')
 \<and> RefreshSessionWithIframe ''a'' (Some extraDemo)
     \<in> set (new_events idleWorld
              (snd (forceRefreshSession (iframeServices (\<lambda>_. timeoutAttempt)) iframeConfig
                      (Some extraDemo) idleWorld)))
 \<and> last (events (snd (forceRefreshSession refreshTokenServices iframeConfig (Some extraDemo) idleWorld)))
     = RefreshSessionWithRefreshTokens ''a''
         (Some (spreadParams (customParamsRefreshTokenRequest iframeConfig) (Some extraDemo)))"
proof -
  have scope: "spreadParams (customParamsRefreshTokenRequest iframeConfig) (Some extraDemo) ''scope''
     = Some (PString ''openid'')"
    using forceRefreshSession_forwarded_params [where config = iframeConfig and extra = "Some extraDemo"]
    by (simp add: extraDemo_def)
  have prompt: "spreadParams (customParamsRefreshTokenRequest iframeConfig) (Some extraDemo) ''prompt''
     = Some (PString ''none'')"
    using forceRefreshSession_forwarded_params [where config = iframeConfig and extra = "Some extraDemo"]
    by (simp add: extraDemo_def)
  have iframe: "RefreshSessionWithIframe ''a'' (Some extraDemo)
     \<in> set (new_events idleWorld
              (snd (forceRefreshSession (iframeServices (\<lambda>_. timeoutAttempt)) iframeConfig
                      (Some extraDemo) idleWorld)))"
    using forceRefreshSession_forwarded_params [where svc = "iframeServices (\<lambda>_. timeoutAttempt)"
            and config = iframeConfig and extra = "Some extraDemo" and w = idleWorld]
    by (simp add: iframeServices_def timeoutAttempt_def iframeConfig_def idleWorld_def js_falsy_def)
  have refresh: "last (events (snd (forceRefreshSession refreshTokenServices iframeConfig (Some extraDemo)
                    idleWorld)))
     = RefreshSessionWithRefreshTokens ''a''
         (Some (spreadParams (customParamsRefreshTokenRequest iframeConfig) (Some extraDemo)))"
  proof -
    have path: "isCurrentFlowCodeFlowWithRefreshTokens refreshTokenServices iframeConfig"
      by (simp add: refreshTokenServices_def)
    have dispatched: "\<not> silentRenewRunning idleWorld (configId iframeConfig)
        \<and> \<not> js_falsy (authWellknownEndpointUrl iframeConfig)
        \<and> wellKnownOutcome (attempt refreshTokenServices 0) = Emits ()"
      by (simp add: refreshTokenServices_def refreshedAttempt_def iframeConfig_def idleWorld_def
          js_falsy_def)
    have cid: "configId iframeConfig = ''a''"
      by (simp add: iframeConfig_def)
    from forceRefreshSession_forwarded_params [where svc = refreshTokenServices
            and config = iframeConfig and extra = "Some extraDemo" and w = idleWorld]
         path dispatched
    have "last (events (snd (forceRefreshSession refreshTokenServices iframeConfig (Some extraDemo)
                    idleWorld)))
      = RefreshSessionWithRefreshTokens (configId iframeConfig)
         (Some (spreadParams (customParamsRefreshTokenRequest iframeConfig) (Some extraDemo)))"
      by blast
    then show ?thesis by (simp only: cid)
  qed
  from scope prompt iframe refresh show ?thesis by blast
qed

text \<open>
  Claim C9. On the iframe path \<open>forceRefreshSession\<close> resolves only after both
  \<open>startRefreshSession\<close> has emitted and the iframe-renewal-completed signal has arrived: a
  join of the two, not a race. When both happen the result is built from the value of the
  signal; when either is missing there is no result, whatever the other did. The events of
  \<open>startRefreshSession\<close> always come first. In particular, when \<open>startRefreshSession\<close>
  yields null because a renewal is already in progress or the well-known URL is missing,
  and the signal does not arrive, the call returns no null: after the events of
  \<open>startRefreshSession\<close> the next thing that happens is that the silent-renew timeout
  (\<open>silentRenewTimeoutInSeconds * 1000\<close> ms) elapses. Here \<open>startRefreshSession\<close> and the
  signal are those of the call itself: its world and its first subscription.
\<close>

theorem forceRefreshSession_iframe_join:
  fixes svc config extra w
  defines "t \<equiv> silentRenewTimeoutInSeconds config * 1000"
    and "r \<equiv> forceRefreshSession svc config extra w"
    and "s \<equiv> startRefreshSession svc (attempt svc 0) config extra w"
    and "signal \<equiv> iframeCompleted (attempt svc 0)"
  assumes iframe: "\<not> isCurrentFlowCodeFlowWithRefreshTokens svc config"
  shows "(\<forall>x. fst r = Emits x \<longrightarrow> (\<exists>v. fst s = Emits v) \<and> signal \<noteq> None)
       \<and> (\<forall>v c. fst s = Emits v \<and> signal = Some c \<longrightarrow>
            r = (Emits (if areAuthStorageTokensValid svc config then
                          Some \<lparr>idToken = authResultMember c ''id_token'',
                                accessToken = authResultMember c ''access_token'',
                                userData = getUserDataFromStore svc config,
                                isAuthenticated = True,
                                loginConfigId = configId config\<rparr>
                        else None), snd s))
       \<and> (\<exists>rest. events (snd r) = events (snd s) @ rest)
       \<and> ((silentRenewRunning w (configId config) \<or> js_falsy (authWellknownEndpointUrl config))
            \<and> signal = None \<longrightarrow>
            fst s = Emits RNull \<and> (\<forall>x. fst r \<noteq> Emits x)
          \<and> (\<exists>rest. events (snd r) = events (snd s) @ TimeoutElapsed t # rest))"
proof -
  obtain o1 w1 where s: "startRefreshSession svc (attempt svc 0) config extra w = (o1, w1)"
    by (cases "startRefreshSession svc (attempt svc 0) config extra w")
  note unfold = forceRefreshSession_iframe_unfold [OF iframe, of extra w]
  have only_after: "(\<exists>v. fst s = Emits v) \<and> signal \<noteq> None" if "fst r = Emits x" for x
    using that unfolding r_def s_def signal_def
    by (cases o1; cases "iframeCompleted (attempt svc 0)") (simp_all add: unfold s)
  have both: "r = (Emits (if areAuthStorageTokensValid svc config then
                          Some \<lparr>idToken = authResultMember c ''id_token'',
                                accessToken = authResultMember c ''access_token'',
                                userData = getUserDataFromStore svc config,
                                isAuthenticated = True,
                                loginConfigId = configId config\<rparr>
                        else None), snd s)"
    if "fst s = Emits v \<and> signal = Some c" for v c
    using that unfolding r_def s_def signal_def
    by (simp add: unfold s)
  have first: "\<exists>rest. events (snd r) = events (snd s) @ rest"
    unfolding r_def s_def
    by (cases o1; cases "iframeCompleted (attempt svc 0)") (simp_all add: unfold s)
  have waits: "fst s = Emits RNull \<and> (\<forall>x. fst r \<noteq> Emits x)
          \<and> (\<exists>rest. events (snd r) = events (snd s) @ TimeoutElapsed t # rest)"
    if h: "(silentRenewRunning w (configId config) \<or> js_falsy (authWellknownEndpointUrl config))
            \<and> signal = None"
  proof -
    have null: "fst s = Emits RNull"
      using h unfolding s_def
      by (auto simp add: startRefreshSession_unfold isSilentRenewRunning_def Let_def)
    with s have o1: "o1 = Emits RNull" unfolding s_def by simp
    have "fst r = Throws (TypeError ''Cannot destructure property configId of undefined'')"
      and "events (snd r) = events (snd s) @ [TimeoutElapsed t]"
      using h unfolding r_def s_def signal_def t_def
      by (simp_all add: unfold s o1)
    with null show ?thesis by simp
  qed
  from only_after both first waits show ?thesis by blast
qed

theorem forceRefreshSession_iframe_join_witness:
  "\<not> isCurrentFlowCodeFlowWithRefreshTokens (iframeServices (\<lambda>_. timeoutAttempt)) iframeConfig
 \<and> silentRenewRunning busyWorld (configId iframeConfig)
 \<and> iframeCompleted (attempt (iframeServices (\<lambda>_. timeoutAttempt)) 0) = None
 \<and> fst (startRefreshSession (iframeServices (\<lambda>_. timeoutAttempt))
          (attempt (iframeServices (\<lambda>_. timeoutAttempt)) 0) iframeConfig None busyWorld) = Emits RNull
 \<and> fst (forceRefreshSession (iframeServices (\<lambda>_. timeoutAttempt)) iframeConfig None busyWorld)
     \<noteq> Emits None
 \<and> (\<exists>rest. events (snd (forceRefreshSession (iframeServices (\<lambda>_. timeoutAttempt)) iframeConfig None
                           busyWorld)) =
       events (snd (startRefreshSession (iframeServices (\<lambda>_. timeoutAttempt))
                      (attempt (iframeServices (\<lambda>_. timeoutAttempt)) 0) iframeConfig None busyWorld))
       @ TimeoutElapsed 20000 # rest)
 \<and> fst (startRefreshSession (iframeServices (\<lambda>_. answeredAttempt))
          (attempt (iframeServices (\<lambda>_. answeredAttempt)) 0) iframeConfig None idleWorld)
     = Emits (RBoolean True)
 \<and> iframeCompleted (attempt (iframeServices (\<lambda>_. answeredAttempt)) 0) = Some (Some renewedContext)
 \<and> fst (forceRefreshSession (iframeServices (\<lambda>_. answeredAttempt)) iframeConfig None idleWorld) =
     Emits (Some \<lparr>idToken = Some ''it-1'', accessToken = Some ''at-1'', userData = Some ''alice'',
                  isAuthenticated = True, loginConfigId = ''a''\<rparr>)"
proof -
  have path: "\<not> isCurrentFlowCodeFlowWithRefreshTokens (iframeServices a) iframeConfig" for a
    by (simp add: iframeServices_def)
  have busy: "silentRenewRunning busyWorld (configId iframeConfig)"
    by (simp add: busyWorld_def iframeConfig_def)
  have nosignal: "iframeCompleted (attempt (iframeServices (\<lambda>_. timeoutAttempt)) 0) = None"
    by (simp add: iframeServices_def timeoutAttempt_def)
  have timeout: "silentRenewTimeoutInSeconds iframeConfig * 1000 = 20000"
    by (simp add: iframeConfig_def)
  from forceRefreshSession_iframe_join [OF path [of "\<lambda>_. timeoutAttempt"],
         where extra = None and w = busyWorld] busy nosignal
  have waiting: "fst (startRefreshSession (iframeServices (\<lambda>_. timeoutAttempt))
          (attempt (iframeServices (\<lambda>_. timeoutAttempt)) 0) iframeConfig None busyWorld) = Emits RNull
      \<and> fst (forceRefreshSession (iframeServices (\<lambda>_. timeoutAttempt)) iframeConfig None busyWorld)
          \<noteq> Emits None
      \<and> (\<exists>rest. events (snd (forceRefreshSession (iframeServices (\<lambda>_. timeoutAttempt)) iframeConfig None
                           busyWorld)) =
       events (snd (startRefreshSession (iframeServices (\<lambda>_. timeoutAttempt))
                      (attempt (iframeServices (\<lambda>_. timeoutAttempt)) 0) iframeConfig None busyWorld))
       @ TimeoutElapsed (silentRenewTimeoutInSeconds iframeConfig * 1000) # rest)"
    by blast
  have started: "fst (startRefreshSession (iframeServices (\<lambda>_. answeredAttempt))
          (attempt (iframeServices (\<lambda>_. answeredAttempt)) 0) iframeConfig None idleWorld)
     = Emits (RBoolean True)"
    by (simp add: startRefreshSession_unfold isSilentRenewRunning_def js_falsy_def Let_def
        iframeServices_def answeredAttempt_def iframeConfig_def idleWorld_def)
  have signal: "iframeCompleted (attempt (iframeServices (\<lambda>_. answeredAttempt)) 0)
     = Some (Some renewedContext)"
    by (simp add: iframeServices_def answeredAttempt_def)
  from forceRefreshSession_iframe_join [OF path [of "\<lambda>_. answeredAttempt"],
         where extra = None and w = idleWorld] started signal
  have "forceRefreshSession (iframeServices (\<lambda>_. answeredAttempt)) iframeConfig None idleWorld =
      (Emits (if areAuthStorageTokensValid (iframeServices (\<lambda>_. answeredAttempt)) iframeConfig then
                Some \<lparr>idToken = authResultMember (Some renewedContext) ''id_token'',
                      accessToken = authResultMember (Some renewedContext) ''access_token'',
                      userData = getUserDataFromStore (iframeServices (\<lambda>_. answeredAttempt)) iframeConfig,
                      isAuthenticated = True,
                      loginConfigId = configId iframeConfig\<rparr>
              else None),
       snd (startRefreshSession (iframeServices (\<lambda>_. answeredAttempt))
              (attempt (iframeServices (\<lambda>_. answeredAttempt)) 0) iframeConfig None idleWorld))"
    by blast
  then have answered: "fst (forceRefreshSession (iframeServices (\<lambda>_. answeredAttempt)) iframeConfig None
                    idleWorld) =
     Emits (Some \<lparr>idToken = Some ''it-1'', accessToken = Some ''at-1'', userData = Some ''alice'',
                  isAuthenticated = True, loginConfigId = ''a''\<rparr>)"
    by (simp add: iframeServices_def iframeConfig_def renewedContext_def authResultMember_def)
  from waiting have waiting': "fst (startRefreshSession (iframeServices (\<lambda>_. timeoutAttempt))
          (attempt (iframeServices (\<lambda>_. timeoutAttempt)) 0) iframeConfig None busyWorld) = Emits RNull
      \<and> fst (forceRefreshSession (iframeServices (\<lambda>_. timeoutAttempt)) iframeConfig None busyWorld)
          \<noteq> Emits None
      \<and> (\<exists>rest. events (snd (forceRefreshSession (iframeServices (\<lambda>_. timeoutAttempt)) iframeConfig None
                           busyWorld)) =
       events (snd (startRefreshSession (iframeServices (\<lambda>_. timeoutAttempt))
                      (attempt (iframeServices (\<lambda>_. timeoutAttempt)) 0) iframeConfig None busyWorld))
       @ TimeoutElapsed 20000 # rest)"
    by (simp add: timeout)
  from path busy nosignal waiting' started signal answered show ?thesis by blast
qed

text \<open>
  Claim C1. The claim reads: on the iframe path of \<open>forceRefreshSession\<close> every timeout with
  fewer than \<open>MAX_RETRY_ATTEMPTS = 3\<close> earlier attempts clears the in-progress flag and
  retries after \<open>attemptNumber * 1000\<close> ms, and any other error, or a fourth timeout, is
  wrapped and surfaced. The strategy is written to do that when it has its configuration
  (\<open>timeoutRetryStrategy_with_config\<close>, \<open>renewWithRetry_with_config_backoff\<close>), but
  \<open>forceRefreshSession\<close> hands it to \<open>retryWhen\<close> without one. What the code does on the
  first timeout: the strategy throws a \<open>TypeError\<close>, which is surfaced at once; there is
  no delay, no second subscription, and the flag set by the attempt stays set.
\<close>

theorem forceRefreshSession_timeout_not_retried:
  "fst (forceRefreshSession (iframeServices (\<lambda>_. timeoutAttempt)) iframeConfig None idleWorld) =
     Throws (TypeError ''Cannot destructure property configId of undefined'')
 \<and> events (snd (forceRefreshSession (iframeServices (\<lambda>_. timeoutAttempt)) iframeConfig None idleWorld)) =
     [LogDebug ''Checking: silentRenewRunning: false'',
      GetAuthWellKnownEndPoints ''https://idp/.well-known/openid-configuration'' ''a'',
      SetSilentRenewRunning ''a'',
      RefreshSessionWithIframe ''a'' None,
      TimeoutElapsed 20000]
 \<and> silentRenewRunning (snd (forceRefreshSession (iframeServices (\<lambda>_. timeoutAttempt)) iframeConfig None
                              idleWorld)) ''a''"
  by (simp add: renewWithRetry.simps forceRefreshSession_def forkJoinWithTimeout_def
        startRefreshSession_call_def startRefreshSession_subscribe_def
        timeoutRetryStrategy_def isSilentRenewRunning_def js_falsy_def Let_def
        iframeServices_def timeoutAttempt_def iframeConfig_def idleWorld_def)

theorem forceRefreshSession_timeout_not_retried_witness:
  "fst (forceRefreshSession (iframeServices (\<lambda>_. timeoutAttempt)) iframeConfig None idleWorld)
     \<noteq> Throws (Error_of TimeoutError)
 \<and> filter isTimer (events (snd (forceRefreshSession (iframeServices (\<lambda>_. timeoutAttempt)) iframeConfig
                                   None idleWorld))) = []
 \<and> ResetSilentRenewRunning ''a''
     \<notin> set (events (snd (forceRefreshSession (iframeServices (\<lambda>_. timeoutAttempt)) iframeConfig None
                          idleWorld)))"
  using forceRefreshSession_timeout_not_retried by simp

text \<open>
  Claim C2, as amended. The renewal code does not guarantee that the in-progress flag is
  cleared before a renewal error reaches the caller. \<open>timeoutRetryStrategy\<close> clears the
  flag only in its retry branch (a timeout with attempt number at most
  \<open>MAX_RETRY_ATTEMPTS\<close>), before the retry delay; in its terminal branch (an error that is
  no timeout, or a timeout with attempt number above \<open>MAX_RETRY_ATTEMPTS\<close>) it wraps the
  error and leaves the flag store as it is. On the refresh-token path an error of
  \<open>startRefreshSession\<close> is passed to the caller with the world exactly as
  \<open>startRefreshSession\<close> left it.
\<close>

theorem renewal_error_surfaced_without_reset:
  fixes svc config extra w c error index w'
  defines "s \<equiv> startRefreshSession svc (attempt svc 0) config
                  (Some (spreadParams (customParamsRefreshTokenRequest config) extra)) w"
  shows "(error \<noteq> TimeoutError \<or> MAX_RETRY_ATTEMPTS \<le> index \<longrightarrow>
            timeoutRetryStrategy (Some c) error index w' = (Inl (Error_of error), w'))
       \<and> (index < MAX_RETRY_ATTEMPTS \<longrightarrow>
            fst (timeoutRetryStrategy (Some c) TimeoutError index w') = Inr ((index + 1) * 1000)
          \<and> silentRenewRunning (snd (timeoutRetryStrategy (Some c) TimeoutError index w'))
              = (silentRenewRunning w')(configId c := False))
       \<and> (isCurrentFlowCodeFlowWithRefreshTokens svc config \<longrightarrow>
            (\<forall>e. fst s = Throws e \<longrightarrow> forceRefreshSession svc config extra w = (Throws e, snd s)))"
proof -
  have terminal: "timeoutRetryStrategy (Some c) error index w' = (Inl (Error_of error), w')"
    if "error \<noteq> TimeoutError \<or> MAX_RETRY_ATTEMPTS \<le> index"
    using that by (auto simp add: timeoutRetryStrategy_def Let_def)
  have retry: "fst (timeoutRetryStrategy (Some c) TimeoutError index w') = Inr ((index + 1) * 1000)
          \<and> silentRenewRunning (snd (timeoutRetryStrategy (Some c) TimeoutError index w'))
              = (silentRenewRunning w')(configId c := False)"
    if "index < MAX_RETRY_ATTEMPTS"
    using that by (simp add: timeoutRetryStrategy_with_config)
  have passed: "forceRefreshSession svc config extra w = (Throws e, snd s)"
    if "isCurrentFlowCodeFlowWithRefreshTokens svc config" and "fst s = Throws e" for e
    using that unfolding s_def
    by (cases "startRefreshSession svc (attempt svc 0) config
                 (Some (spreadParams (customParamsRefreshTokenRequest config) extra)) w")
       (simp add: forceRefreshSession_def Let_def)
  from terminal retry passed show ?thesis by blast
qed

theorem renewal_error_surfaced_without_reset_witness:
  "timeoutRetryStrategy (Some iframeConfig) (OtherError ''iframe failed'') 0 busyWorld
     = (Inl (Error_of (OtherError ''iframe failed'')), busyWorld)
 \<and> fst (timeoutRetryStrategy (Some iframeConfig) TimeoutError 1 busyWorld) = Inr 2000
 \<and> \<not> silentRenewRunning (snd (timeoutRetryStrategy (Some iframeConfig) TimeoutError 1 busyWorld)) ''a''
 \<and> isCurrentFlowCodeFlowWithRefreshTokens (refreshTokenServices\<lparr>attempt := \<lambda>_. failedExchangeAttempt\<rparr>)
      iframeConfig
 \<and> fst (forceRefreshSession (refreshTokenServices\<lparr>attempt := \<lambda>_. failedExchangeAttempt\<rparr>) iframeConfig
          None idleWorld) = Throws (OtherError ''invalid_grant'')"
proof -
  have terminal: "timeoutRetryStrategy (Some iframeConfig) (OtherError ''iframe failed'') 0 busyWorld
     = (Inl (Error_of (OtherError ''iframe failed'')), busyWorld)"
    using renewal_error_surfaced_without_reset [where c = iframeConfig
            and error = "OtherError ''iframe failed''" and index = 0 and w' = busyWorld]
    by simp
  have retry: "fst (timeoutRetryStrategy (Some iframeConfig) TimeoutError 1 busyWorld) = Inr 2000
      \<and> \<not> silentRenewRunning (snd (timeoutRetryStrategy (Some iframeConfig) TimeoutError 1 busyWorld)) ''a''"
    using renewal_error_surfaced_without_reset [where c = iframeConfig
            and error = TimeoutError and index = 1 and w' = busyWorld]
    by (simp add: MAX_RETRY_ATTEMPTS_def iframeConfig_def)
  have path: "isCurrentFlowCodeFlowWithRefreshTokens
                (refreshTokenServices\<lparr>attempt := \<lambda>_. failedExchangeAttempt\<rparr>) iframeConfig"
    by (simp add: refreshTokenServices_def)
  have failed: "fst (startRefreshSession (refreshTokenServices\<lparr>attempt := \<lambda>_. failedExchangeAttempt\<rparr>)
          (attempt (refreshTokenServices\<lparr>attempt := \<lambda>_. failedExchangeAttempt\<rparr>) 0) iframeConfig
          (Some (spreadParams (customParamsRefreshTokenRequest iframeConfig) None)) idleWorld)
      = Throws (OtherError ''invalid_grant'')"
    by (simp add: startRefreshSession_unfold isSilentRenewRunning_def js_falsy_def Let_def
        refreshTokenServices_def failedExchangeAttempt_def iframeConfig_def idleWorld_def)
  from renewal_error_surfaced_without_reset [where
          svc = "refreshTokenServices\<lparr>attempt := \<lambda>_. failedExchangeAttempt\<rparr>"
          and config = iframeConfig and extra = None and w = idleWorld] path failed
  have "forceRefreshSession (refreshTokenServices\<lparr>attempt := \<lambda>_. failedExchangeAttempt\<rparr>) iframeConfig
          None idleWorld =
        (Throws (OtherError ''invalid_grant''),
         snd (startRefreshSession (refreshTokenServices\<lparr>attempt := \<lambda>_. failedExchangeAttempt\<rparr>)
          (attempt (refreshTokenServices\<lparr>attempt := \<lambda>_. failedExchangeAttempt\<rparr>) 0) iframeConfig
          (Some (spreadParams (customParamsRefreshTokenRequest iframeConfig) None)) idleWorld))"
    by blast
  then have surfaced: "fst (forceRefreshSession (refreshTokenServices\<lparr>attempt := \<lambda>_. failedExchangeAttempt\<rparr>)
          iframeConfig None idleWorld) = Throws (OtherError ''invalid_grant'')"
    by simp
  from terminal retry path surfaced show ?thesis by blast
qed

text \<open>The claim as it was stated fails. On the refresh-token path, a refresh-token exchange
  that fails after the metadata fetch has resolved ends the renewal with an error that
  reaches the caller while the in-progress flag of the configuration, set by the attempt,
  is still set. And the timeout strategy, given its configuration and a fourth timeout,
  surfaces the wrapped timeout and leaves a set flag set.\<close>

theorem flag_left_set_counterexample:
  "surfacedError (fst (forceRefreshSession (refreshTokenServices\<lparr>attempt := \<lambda>_. failedExchangeAttempt\<rparr>)
                         iframeConfig None idleWorld))
 \<and> silentRenewRunning (snd (forceRefreshSession (refreshTokenServices\<lparr>attempt := \<lambda>_. failedExchangeAttempt\<rparr>)
                              iframeConfig None idleWorld)) (configId iframeConfig)
 \<and> fst (timeoutRetryStrategy (Some iframeConfig) TimeoutError 3 busyWorld) = Inl (Error_of TimeoutError)
 \<and> silentRenewRunning (snd (timeoutRetryStrategy (Some iframeConfig) TimeoutError 3 busyWorld))
      (configId iframeConfig)"
  by (simp add: forceRefreshSession_def startRefreshSession_unfold timeoutRetryStrategy_def
        isSilentRenewRunning_def js_falsy_def Let_def MAX_RETRY_ATTEMPTS_def
        refreshTokenServices_def failedExchangeAttempt_def iframeConfig_def idleWorld_def busyWorld_def)

end
